theory Spec2Isabelle
  imports Complex_Main "HOL-Library.Word"
begin

unbundle bit_operations_syntax

section \<open>The MAVLink bridge of the simulator plugin\<close>

text \<open>
  A shallow embedding of \<^verbatim>\<open>src/gazebo_mavlink_interface.cpp\<close>, the plugin that
  sends simulated sensor readings to a flight controller and applies the actuator
  commands it receives.

  Conventions of the embedding.
  \<^item> A member \<^verbatim>\<open>m_\<close> of the class is the field \<open>m\<close> of a record (a name cannot end
    in an underscore here). Members written once by \<^verbatim>\<open>Load\<close> and only read afterwards
    are the record \<open>params\<close>; the members the callbacks write are the record \<open>plugin\<close>.
  \<^item> \<^verbatim>\<open>double\<close> and \<^verbatim>\<open>float\<close> values are real numbers: rounding is not
    modelled. Where the source tests \<^verbatim>\<open>std::isfinite\<close> the values are of the
    type \<open>fp\<close> below, which has the non-finite values too.
  \<^item> A \<^verbatim>\<open>common::Time\<close> is the real number of seconds its \<^verbatim>\<open>Double()\<close> returns.
  \<^item> What the simulator, the socket and the random generators return is an input of the
    modelled function; what the function sends, publishes or sets is part of its result.
\<close>

subsection \<open>Numbers, vectors and addresses\<close>

text \<open>\<^verbatim>\<open>math::Vector3\<close>: the fields \<^verbatim>\<open>x\<close>, \<^verbatim>\<open>y\<close>, \<^verbatim>\<open>z\<close>.\<close>

record Vector3 =
  v_x :: real
  v_y :: real
  v_z :: real

text \<open>\<^verbatim>\<open>Vector3::GetLength\<close>, \<^verbatim>\<open>operator+\<close>, \<^verbatim>\<open>operator*\<close> with a scalar and
  \<^verbatim>\<open>Set()\<close> with its default arguments.\<close>

definition GetLength :: "Vector3 \<Rightarrow> real" where
  "GetLength v = sqrt (v_x v * v_x v + v_y v * v_y v + v_z v * v_z v)"

definition vec_add :: "Vector3 \<Rightarrow> Vector3 \<Rightarrow> Vector3" where
  "vec_add a b = \<lparr>v_x = v_x a + v_x b, v_y = v_y a + v_y b, v_z = v_z a + v_z b\<rparr>"

definition vec_scale :: "Vector3 \<Rightarrow> real \<Rightarrow> Vector3" where
  "vec_scale a k = \<lparr>v_x = v_x a * k, v_y = v_y a * k, v_z = v_z a * k\<rparr>"

definition vec_zero :: Vector3 where
  "vec_zero = \<lparr>v_x = 0, v_y = 0, v_z = 0\<rparr>"

text \<open>
  The conversion of a \<^verbatim>\<open>double\<close> to an integer type drops the fraction. The source is
  undefined when the result does not fit the integer type; the model keeps the integer.
\<close>

definition trunc :: "real \<Rightarrow> int" where
  "trunc r = (if 0 \<le> r then \<lfloor>r\<rfloor> else \<lceil>r\<rceil>)"

text \<open>\<^verbatim>\<open>atan2(y, x)\<close> of the C library: the angle of the point \<open>(x, y)\<close>, in
  \<open>(-\<pi>, \<pi>]\<close>.\<close>

definition atan2 :: "real \<Rightarrow> real \<Rightarrow> real" where
  "atan2 y x =
     (if 0 < x then arctan (y / x)
      else if x < 0 then (if 0 \<le> y then arctan (y / x) + pi else arctan (y / x) - pi)
      else if 0 < y then pi / 2
      else if y < 0 then - (pi / 2)
      else 0)"

text \<open>\<^verbatim>\<open>math::Quaternion\<close>: the fields \<^verbatim>\<open>w\<close>, \<^verbatim>\<open>x\<close>, \<^verbatim>\<open>y\<close>, \<^verbatim>\<open>z\<close>.\<close>

record Quaternion =
  q_w :: real
  q_x :: real
  q_y :: real
  q_z :: real

text \<open>
  What the libraries provide and the sources do not contain: the product, the inverse
  and the two rotations of \<^verbatim>\<open>math::Quaternion\<close>, its constructor from Euler angles,
  the declination table of \<^verbatim>\<open>geo_mag_declination.h\<close> and \<^verbatim>\<open>RAND_MAX\<close>. They are
  parameters of the model: nothing is assumed about them.
\<close>

record library =
  quat_mul :: "Quaternion \<Rightarrow> Quaternion \<Rightarrow> Quaternion"
  GetInverse :: "Quaternion \<Rightarrow> Quaternion"
  RotateVector :: "Quaternion \<Rightarrow> Vector3 \<Rightarrow> Vector3"
  RotateVectorReverse :: "Quaternion \<Rightarrow> Vector3 \<Rightarrow> Vector3"
  Quaternion_euler :: "real \<Rightarrow> real \<Rightarrow> real \<Rightarrow> Quaternion"
  get_mag_declination :: "real \<Rightarrow> real \<Rightarrow> real"
  RAND_MAX :: nat

text \<open>\<^verbatim>\<open>struct sockaddr_in\<close>: the address and the port, both in network byte order.
  \<^verbatim>\<open>htons\<close> converts its argument to 16 bits and, on a little-endian host, swaps the
  two bytes.\<close>

record sockaddr_in =
  sin_addr :: "32 word"
  sin_port :: "16 word"

definition htons :: "int \<Rightarrow> 16 word" where
  "htons p = (let h = (word_of_int p :: 16 word) in push_bit 8 h OR drop_bit 8 h)"

subsection \<open>Values that may not be finite\<close>

text \<open>
  \<^verbatim>\<open>ImuCallback\<close> tests the perturbed altitude with \<^verbatim>\<open>std::isfinite\<close>, so the
  values on that path are of the type \<open>fp\<close>: a finite number, or \<open>NonFinite\<close> for an
  infinity or a NaN. Every operation the path uses returns a non-finite result for a
  non-finite operand, so the three non-finite values need not be told apart. A finite
  result is the exact real number (no rounding); \<^verbatim>\<open>logf\<close> is not finite at zero and
  below, \<^verbatim>\<open>sqrtf\<close> is not finite below zero, and \<open>to_float\<close>, the conversion of a
  \<^verbatim>\<open>double\<close> to \<^verbatim>\<open>float\<close>, is not finite beyond \<^verbatim>\<open>FLT_MAX\<close>.
\<close>

datatype fp = Finite real | NonFinite

definition FLT_EPSILON :: real where
  "FLT_EPSILON = 1 / 2 ^ 23"

definition FLT_MAX :: real where
  "FLT_MAX = (2 ^ 24 - 1) * 2 ^ 104"

fun isfinite :: "fp \<Rightarrow> bool" where
  "isfinite (Finite r) = True"
| "isfinite NonFinite = False"

fun fp_neg :: "fp \<Rightarrow> fp" where
  "fp_neg (Finite a) = Finite (- a)"
| "fp_neg NonFinite = NonFinite"

fun fp_add :: "fp \<Rightarrow> fp \<Rightarrow> fp" where
  "fp_add (Finite a) (Finite b) = Finite (a + b)"
| "fp_add a b = NonFinite"

fun fp_mul :: "fp \<Rightarrow> fp \<Rightarrow> fp" where
  "fp_mul (Finite a) (Finite b) = Finite (a * b)"
| "fp_mul a b = NonFinite"

fun logf :: "fp \<Rightarrow> fp" where
  "logf (Finite a) = (if 0 < a then Finite (ln a) else NonFinite)"
| "logf NonFinite = NonFinite"

fun sqrtf :: "fp \<Rightarrow> fp" where
  "sqrtf (Finite a) = (if 0 \<le> a then Finite (sqrt a) else NonFinite)"
| "sqrtf NonFinite = NonFinite"

fun cosf :: "fp \<Rightarrow> fp" where
  "cosf (Finite a) = Finite (cos a)"
| "cosf NonFinite = NonFinite"

fun to_float :: "fp \<Rightarrow> fp" where
  "to_float (Finite a) = (if \<bar>a\<bar> \<le> FLT_MAX then Finite a else NonFinite)"
| "to_float NonFinite = NonFinite"

subsection \<open>Messages\<close>

text \<open>
  The payload of a \<^verbatim>\<open>HIL_ACTUATOR_CONTROLS\<close> message as the MAVLink decoder returns
  it: \<^verbatim>\<open>float controls[16]\<close> and the \<^verbatim>\<open>uint8_t mode\<close> bitmask. A message with any
  other identifier is \<open>OTHER_MESSAGE\<close> with that identifier.
\<close>

record mavlink_hil_actuator_controls_t =
  controls :: "real list"
  mode :: "8 word"

datatype mavlink_message_t =
  HIL_ACTUATOR_CONTROLS mavlink_hil_actuator_controls_t
| OTHER_MESSAGE nat

text \<open>\<^verbatim>\<open>MAV_MODE_FLAG_SAFETY_ARMED\<close> of the MAVLink common dialect, bit 7.\<close>

definition MAV_MODE_FLAG_SAFETY_ARMED :: "8 word" where
  "MAV_MODE_FLAG_SAFETY_ARMED = 128"

text \<open>
  The messages the plugin sends. A field \<^verbatim>\<open>f\<close> of \<^verbatim>\<open>mavlink_hil_gps_t\<close> is \<open>gps_f\<close>,
  one of \<^verbatim>\<open>mavlink_vision_position_estimate_t\<close> is \<open>vp_f\<close>, one of
  \<^verbatim>\<open>mavlink_hil_optical_flow_t\<close> is \<open>flow_f\<close>, one of \<^verbatim>\<open>mavlink_hil_sensor_t\<close>
  is \<open>sensor_f\<close> and one of \<^verbatim>\<open>mavlink_hil_state_quaternion_t\<close> is \<open>state_f\<close>.
  Integer fields hold the integer the assigned value converts to.
\<close>

record mavlink_hil_gps_t =
  gps_time_usec :: int
  gps_fix_type :: int
  gps_lat :: int
  gps_lon :: int
  gps_alt :: int
  gps_eph :: int
  gps_epv :: int
  gps_vel :: int
  gps_vn :: int
  gps_ve :: int
  gps_vd :: int
  gps_cog :: int
  gps_satellites_visible :: int

record mavlink_vision_position_estimate_t =
  vp_usec :: int
  vp_x :: real
  vp_y :: real
  vp_z :: real
  vp_roll :: real
  vp_pitch :: real
  vp_yaw :: real

record mavlink_hil_sensor_t =
  sensor_time_usec :: int
  sensor_xacc :: real
  sensor_yacc :: real
  sensor_zacc :: real
  sensor_xgyro :: real
  sensor_ygyro :: real
  sensor_zgyro :: real
  sensor_xmag :: real
  sensor_ymag :: real
  sensor_zmag :: real
  sensor_abs_pressure :: real
  sensor_diff_pressure :: real
  sensor_pressure_alt :: fp
  sensor_temperature :: real
  sensor_fields_updated :: int

record mavlink_hil_state_quaternion_t =
  state_time_usec :: int
  state_attitude_quaternion :: "real list"
  state_rollspeed :: real
  state_pitchspeed :: real
  state_yawspeed :: real
  state_lat :: int
  state_lon :: int
  state_alt :: int
  state_vx :: int
  state_vy :: int
  state_vz :: int
  state_ind_airspeed :: int
  state_true_airspeed :: int
  state_xacc :: int
  state_yacc :: int
  state_zacc :: int

record mavlink_hil_optical_flow_t =
  flow_time_usec :: int
  flow_sensor_id :: int
  flow_integration_time_us :: int
  flow_integrated_x :: real
  flow_integrated_y :: real
  flow_integrated_xgyro :: real
  flow_integrated_ygyro :: real
  flow_integrated_zgyro :: real
  flow_temperature :: int
  flow_quality :: int
  flow_time_delta_distance_us :: int
  flow_distance :: real

text \<open>The message of the simulator's inertial sensor.\<close>

record Imu =
  imu_orientation :: Quaternion
  imu_linear_acceleration :: Vector3
  imu_angular_velocity :: Vector3

text \<open>The optical flow message of the simulator's camera plugin, as its accessors
  return it: 32-bit integers and floats.\<close>

record opticalFlow =
  of_sensor_id :: int
  of_integration_time_us :: int
  of_integrated_x :: real
  of_integrated_y :: real
  of_temperature :: real
  of_quality :: int
  of_time_delta_distance_us :: int

subsection \<open>Parameters and state\<close>

text \<open>\<^verbatim>\<open>common::PID\<close> of the simulator: its gains, limits and error terms. Its
  \<^verbatim>\<open>Update\<close> is library code; the model takes it as the parameter \<open>PID_Update\<close>,
  which returns the command and the controller after the step.\<close>

record PID =
  pGain :: real
  iGain :: real
  dGain :: real
  iMax :: real
  iMin :: real
  cmdMax :: real
  cmdMin :: real
  pErrLast :: real
  pErr :: real
  iErr :: real
  dErr :: real
  cmd :: real

text \<open>
  The fixed-size arrays of the class have \<^verbatim>\<open>n_out_max\<close> entries; the constant is
  declared in the header, which is not part of the sources, so it is a parameter, and
  so are the noise constants of the header. The arrays are lists, and \<open>wf_params\<close>
  says that they have \<^verbatim>\<open>n_out_max\<close> entries and that an index below
  \<^verbatim>\<open>n_out_max\<close> is an index of the 16 controls of a command. A joint handle is the
  name of the joint, \<open>None\<close> for the null handle. \<^verbatim>\<open>lat_home\<close>, \<^verbatim>\<open>lon_home\<close>
  and \<^verbatim>\<open>alt_home\<close> are the file's static variables, which \<^verbatim>\<open>Load\<close> may overwrite
  from the environment.
\<close>

record params =
  n_out_max :: nat
  input_offset :: "real list"
  input_scaling :: "real list"
  zero_position_disarmed :: "real list"
  zero_position_armed :: "real list"
  joint_control_type :: "string list"
  joints :: "string option list"
  PID_Update :: "PID \<Rightarrow> real \<Rightarrow> real \<Rightarrow> real \<times> PID"
  lat_home :: real
  lon_home :: real
  alt_home :: real
  gps_noise_density :: real
  gps_random_walk :: real
  gps_corellation_time :: real
  ev_noise_density :: real
  ev_random_walk :: real
  ev_corellation_time :: real

definition wf_params :: "params \<Rightarrow> bool" where
  "wf_params P \<longleftrightarrow>
     n_out_max P \<le> 16 \<and>
     length (input_offset P) = n_out_max P \<and>
     length (input_scaling P) = n_out_max P \<and>
     length (zero_position_disarmed P) = n_out_max P \<and>
     length (zero_position_armed P) = n_out_max P \<and>
     length (joint_control_type P) = n_out_max P \<and>
     length (joints P) = n_out_max P"

definition earth_radius :: real where
  "earth_radius = 6353000"

text \<open>The intervals \<^verbatim>\<open>Load\<close> assigns, in seconds.\<close>

definition gps_update_interval :: real where
  "gps_update_interval = 0.2"

definition gps_delay :: real where
  "gps_delay = 0.12"

definition ev_update_interval :: real where
  "ev_update_interval = 0.05"

text \<open>
  The members the callbacks write. \<open>standard_normal_distribution\<close> is the mean and
  the standard deviation of the distribution object, and \<open>random_generator\<close> counts
  the variates drawn so far: the \<open>k\<close>-th call of the distribution returns
  \<open>mean + stddev * variates k\<close>, where \<open>variates\<close> is the sequence of standard normal
  variates the generator yields. \<open>last_dt_us\<close> is the static local variable of
  \<^verbatim>\<open>ImuCallback\<close>, \<open>None\<close> until the first call initialises it, and \<open>rand_calls\<close>
  counts the calls of \<^verbatim>\<open>rand()\<close>.
\<close>

record plugin =
  input_index :: "nat list"
  input_reference :: "real list"
  last_actuator_time :: real
  received_first_referenc :: bool
  pids :: "PID list"
  srcaddr :: sockaddr_in
  last_time :: real
  last_gps_time :: real
  last_ev_time :: real
  lat_rad :: real
  lon_rad :: real
  gps_bias_x :: real
  gps_bias_y :: real
  gps_bias_z :: real
  ev_bias_x :: real
  ev_bias_y :: real
  ev_bias_z :: real
  hil_gps_msg :: mavlink_hil_gps_t
  standard_normal_distribution :: "real \<times> real"
  random_generator :: nat
  optflow_gyro :: Vector3
  optflow_distance :: real
  last_dt_us :: "32 word option"
  rand_calls :: nat

text \<open>\<^verbatim>\<open>int input_index_[n_out_max]\<close> is an array of the class, and \<^verbatim>\<open>Load\<close> resizes
  \<^verbatim>\<open>pids_\<close> to \<^verbatim>\<open>n_out_max\<close> entries.\<close>

definition wf_plugin :: "params \<Rightarrow> plugin \<Rightarrow> bool" where
  "wf_plugin P s \<longleftrightarrow> length (input_index s) = n_out_max P \<and> length (pids s) = n_out_max P"

text \<open>
  What one call of \<^verbatim>\<open>OnUpdate\<close> reads from outside: the simulated time, the state of
  the socket (\<open>pollin\<close>: data is ready; \<open>recv_len\<close> and \<open>recv_addr\<close>: what
  \<^verbatim>\<open>recvfrom\<close> returns and the sender it stores; \<open>parsed\<close>: the frames the MAVLink
  parser completes over the received bytes), the joints, the pose, velocities and
  acceleration of the model, the variates of the random generator and the values
  \<^verbatim>\<open>rand()\<close> returns, call by call. The other callbacks read the same record.
\<close>

record world =
  sim_time :: real
  pollin :: bool
  recv_len :: int
  recv_addr :: sockaddr_in
  parsed :: "mavlink_message_t list"
  joint_velocity :: "string \<Rightarrow> real"
  joint_angle :: "string \<Rightarrow> real"
  pose_pos :: Vector3
  pose_roll :: real
  pose_pitch :: real
  pose_yaw :: real
  linear_vel :: Vector3
  relative_linear_vel :: Vector3
  relative_angular_vel :: Vector3
  relative_linear_accel :: Vector3
  variates :: "nat \<Rightarrow> real"
  rand_values :: "nat \<Rightarrow> nat"

text \<open>The \<open>k\<close>-th call of \<^verbatim>\<open>standard_normal_distribution_(random_generator_)\<close>
  counted from the state \<open>s\<close>.\<close>

definition draw :: "world \<Rightarrow> plugin \<Rightarrow> nat \<Rightarrow> real" where
  "draw w s k = fst (standard_normal_distribution s)
                 + snd (standard_normal_distribution s) * variates w (random_generator s + k)"

subsection \<open>Sending a message\<close>

text \<open>
  \<^verbatim>\<open>send_mavlink_message\<close>. \<open>to_send_buffer\<close> is the serialiser of the MAVLink
  library and \<open>len\<close> what \<^verbatim>\<open>sendto\<close> returns. The result is the call of
  \<^verbatim>\<open>sendto\<close> (the bytes, their number and the address passed to it) and the lines
  printed. No member is written.
\<close>

record sendto_call =
  sendto_buf :: "8 word list"
  sendto_len :: nat
  sendto_dest :: sockaddr_in

definition send_mavlink_message ::
  "('m \<Rightarrow> 8 word list) \<Rightarrow> plugin \<Rightarrow> 'm \<Rightarrow> int \<Rightarrow> int \<Rightarrow> sendto_call \<times> string list" where
  "send_mavlink_message to_send_buffer s message destination_port len =
     (let buffer = to_send_buffer message;
          packetlen = length buffer;
          dest_addr = srcaddr s;
          dest_addr = (if destination_port \<noteq> 0
                       then dest_addr\<lparr>sin_port := htons destination_port\<rparr>
                       else dest_addr)
      in (\<lparr>sendto_buf = buffer, sendto_len = packetlen, sendto_dest = srcaddr s\<rparr>,
          if len \<le> 0 then [''Failed sending mavlink message''] else []))"

subsection \<open>Decoding an actuator command\<close>

text \<open>\<^verbatim>\<open>(controls.mode & MAV_MODE_FLAG_SAFETY_ARMED) > 0\<close>\<close>

definition armed_flag :: "mavlink_hil_actuator_controls_t \<Rightarrow> bool" where
  "armed_flag c \<longleftrightarrow> 0 < (mode c AND MAV_MODE_FLAG_SAFETY_ARMED)"

text \<open>\<^verbatim>\<open>std::vector<double>::resize(n)\<close>: the first \<open>n\<close> entries are kept, new
  entries are zero.\<close>

definition resize :: "nat \<Rightarrow> real list \<Rightarrow> real list" where
  "resize n xs = take n xs @ replicate (n - length xs) 0"

text \<open>The value the second loop of \<^verbatim>\<open>handle_message\<close> stores at index \<open>i\<close>.\<close>

definition reference_value ::
  "params \<Rightarrow> mavlink_hil_actuator_controls_t \<Rightarrow> nat list \<Rightarrow> bool \<Rightarrow> nat \<Rightarrow> real" where
  "reference_value P c idx armed i =
     (if armed
      then (controls c ! (idx ! i) + input_offset P ! i) * input_scaling P ! i
             + zero_position_armed P ! i
      else zero_position_disarmed P ! i)"

text \<open>
  \<^verbatim>\<open>handle_message\<close>; \<open>now\<close> is what \<^verbatim>\<open>world_->GetSimTime()\<close> returns. The two
  \<^verbatim>\<open>for\<close> loops are folds over the indices, each step one array assignment.
\<close>

fun handle_message :: "params \<Rightarrow> real \<Rightarrow> mavlink_message_t \<Rightarrow> plugin \<Rightarrow> plugin" where
  "handle_message P now (HIL_ACTUATOR_CONTROLS c) s =
     (let armed = armed_flag c;
          s1 = s\<lparr>last_actuator_time := now\<rparr>;
          s2 = s1\<lparr>input_index :=
                  fold (\<lambda>i idx. idx[i := i]) [0..<n_out_max P] (input_index s1)\<rparr>;
          s3 = s2\<lparr>input_reference := resize (n_out_max P) (input_reference s2)\<rparr>;
          s4 = s3\<lparr>input_reference :=
                  fold (\<lambda>i ref. ref[i := reference_value P c (input_index s3) armed i])
                    [0..<length (input_reference s3)] (input_reference s3)\<rparr>
      in s4\<lparr>received_first_referenc := True\<rparr>)"
| "handle_message P now (OTHER_MESSAGE msgid) s = s"

text \<open>
  \<^verbatim>\<open>pollForMAVLinkMessages\<close>: when the socket has data, \<^verbatim>\<open>recvfrom\<close> stores the
  sender in \<^verbatim>\<open>_srcaddr\<close> (unless it fails) and every frame the parser completes is
  handled, in order.
\<close>

definition pollForMAVLinkMessages :: "params \<Rightarrow> world \<Rightarrow> plugin \<Rightarrow> plugin" where
  "pollForMAVLinkMessages P w s =
     (if pollin w
      then (let s1 = (if 0 \<le> recv_len w then s\<lparr>srcaddr := recv_addr w\<rparr> else s)
            in if 0 < recv_len w then fold (handle_message P (sim_time w)) (parsed w) s1
               else s1)
      else s)"

subsection \<open>Joint control\<close>

text \<open>What \<^verbatim>\<open>handle_control\<close> does to the simulator: a force or a position set on a
  joint, a target published on the topic of channel \<open>i\<close>, or an error line.\<close>

datatype joint_command =
  SetForce string real
| Publish nat real
| SetPosition string real
| gzerr string

text \<open>The body of the loop of \<^verbatim>\<open>handle_control\<close> for channel \<open>i\<close>; \<open>ref\<close> is
  \<^verbatim>\<open>input_reference_\<close>.\<close>

definition control_channel ::
  "params \<Rightarrow> world \<Rightarrow> real \<Rightarrow> real list \<Rightarrow> nat \<Rightarrow>
   PID list \<times> joint_command list \<Rightarrow> PID list \<times> joint_command list" where
  "control_channel P w dt ref i st =
     (case joints P ! i of
        None \<Rightarrow> st
      | Some joint \<Rightarrow>
          (let target = ref ! i in
           if joint_control_type P ! i = ''velocity'' then
             (let current = joint_velocity w joint;
                  err = current - target;
                  r = PID_Update P (fst st ! i) err dt
              in ((fst st)[i := snd r], snd st @ [SetForce joint (fst r)]))
           else if joint_control_type P ! i = ''position'' then
             (let current = joint_angle w joint;
                  err = current - target;
                  r = PID_Update P (fst st ! i) err dt
              in ((fst st)[i := snd r], snd st @ [SetForce joint (fst r)]))
           else if joint_control_type P ! i = ''position_gztopic'' then
             (fst st, snd st @ [Publish i target])
           else if joint_control_type P ! i = ''position_kinematic'' then
             (fst st, snd st @ [SetPosition joint (ref ! i)])
           else
             (fst st, snd st @
                [gzerr (''joint_control_type['' @ joint_control_type P ! i @ ''] undefined.'')])))"

definition handle_control :: "params \<Rightarrow> world \<Rightarrow> real \<Rightarrow> plugin \<Rightarrow> plugin \<times> joint_command list" where
  "handle_control P w dt s =
     (let r = fold (control_channel P w dt (input_reference s))
                [0..<length (input_reference s)] (pids s, [])
      in (s\<lparr>pids := fst r\<rparr>, snd r))"

subsection \<open>The update of every simulation step\<close>

text \<open>The loop that fills the motor speed message: one entry per reference, zero when
  no command has a time or the last one is older than 0.2 s.\<close>

definition motor_speed :: "real \<Rightarrow> plugin \<Rightarrow> real list" where
  "motor_speed current_time s =
     map (\<lambda>i. if last_actuator_time s = 0 \<or> current_time - last_actuator_time s > 0.2
              then 0 else input_reference s ! i)
       [0..<length (input_reference s)]"

text \<open>The projection of the local position to latitude and longitude
  (\<^verbatim>\<open>x_rad\<close> is north, \<^verbatim>\<open>y_rad\<close> is east).\<close>

definition reproject :: "params \<Rightarrow> Vector3 \<Rightarrow> real \<times> real" where
  "reproject P pos_W_I =
     (let x_rad = v_y pos_W_I / earth_radius;
          y_rad = v_x pos_W_I / earth_radius;
          c = sqrt (x_rad * x_rad + y_rad * y_rad);
          sin_c = sin c;
          cos_c = cos c
      in if c \<noteq> 0
         then (arcsin (cos_c * sin (lat_home P) + (x_rad * sin_c * cos (lat_home P)) / c),
               lon_home P + atan2 (y_rad * sin_c)
                  (c * cos (lat_home P) * cos_c - x_rad * sin (lat_home P) * sin_c))
         else (lat_home P, lon_home P))"

text \<open>\<^verbatim>\<open>math::Angle::Normalize\<close> and \<^verbatim>\<open>math::Angle::Degree\<close> of the simulator's
  library.\<close>

definition Normalize :: "real \<Rightarrow> real" where
  "Normalize a = atan2 (sin a) (cos a)"

definition Degree :: "real \<Rightarrow> real" where
  "Degree a = a * 180 / pi"

text \<open>
  Modelled from the spec: \<^verbatim>\<open>GetDegrees360\<close> is defined in \<^verbatim>\<open>common.h\<close>, which is
  not part of the sources. The spec has the course "normalized to [0,360)": the
  angle in degrees, moved by whole turns into that range.
\<close>

definition GetDegrees360 :: "real \<Rightarrow> real" where
  "GetDegrees360 angle = Degree angle - 360 * of_int \<lfloor>Degree angle / 360\<rfloor>"

text \<open>The course over ground as \<^verbatim>\<open>OnUpdate\<close> computes it from the world velocity.\<close>

definition course_over_ground :: "Vector3 \<Rightarrow> int" where
  "course_over_ground velocity_current_W =
     (let cog = atan2 (v_x velocity_current_W) (v_y velocity_current_W);
          cog = Normalize cog
      in trunc (GetDegrees360 cog * 100))"

text \<open>
  The first GPS block of \<^verbatim>\<open>OnUpdate\<close>, run
  \<^verbatim>\<open>gps_update_interval_ - gps_delay_\<close> after the last message: six variates are
  drawn, the bias is stepped and every field of \<^verbatim>\<open>hil_gps_msg_\<close> is assigned.
\<close>

definition gps_measure :: "params \<Rightarrow> world \<Rightarrow> plugin \<Rightarrow> plugin" where
  "gps_measure P w s =
     (let current_time = sim_time w;
          pos_W_I = pose_pos w;
          velocity_current_W = linear_vel w;
          velocity_current_W_xy = velocity_current_W\<lparr>v_z := 0\<rparr>;
          dt_gps = current_time - last_gps_time s
      in if current_time - last_gps_time s > gps_update_interval - gps_delay then
           (let noise_gps_x = gps_noise_density P * sqrt dt_gps * draw w s 0;
                noise_gps_y = gps_noise_density P * sqrt dt_gps * draw w s 1;
                noise_gps_z = gps_noise_density P * sqrt dt_gps * draw w s 2;
                random_walk_gps_x = gps_random_walk P * draw w s 3;
                random_walk_gps_y = gps_random_walk P * draw w s 4;
                random_walk_gps_z = gps_random_walk P * draw w s 5;
                bias_x = gps_bias_x s + (random_walk_gps_x - gps_bias_x s / gps_corellation_time P);
                bias_y = gps_bias_y s + (random_walk_gps_y - gps_bias_y s / gps_corellation_time P);
                bias_z = gps_bias_z s + (random_walk_gps_z - gps_bias_z s / gps_corellation_time P);
                std_xy = gps_random_walk P * gps_corellation_time P
                           / sqrt (2 * gps_corellation_time P - 1);
                std_z = std_xy
            in s\<lparr>random_generator := random_generator s + 6,
                 gps_bias_x := bias_x, gps_bias_y := bias_y, gps_bias_z := bias_z,
                 hil_gps_msg :=
                   \<lparr>gps_time_usec = trunc (current_time * 1000000),
                    gps_fix_type = 3,
                    gps_lat = trunc ((lat_rad s * 180 / pi + (noise_gps_x + bias_x) * 0.00001)
                                      * 10000000),
                    gps_lon = trunc ((lon_rad s * 180 / pi + (noise_gps_y + bias_y) * 0.00001)
                                      * 10000000),
                    gps_alt = trunc ((v_z pos_W_I + alt_home P) * 1000 + noise_gps_z + bias_z),
                    gps_eph = trunc (100 * (std_xy + gps_noise_density P * gps_noise_density P)),
                    gps_epv = trunc (100 * (std_z + gps_noise_density P * gps_noise_density P)),
                    gps_vel = trunc (GetLength velocity_current_W_xy * 100),
                    gps_vn = trunc (v_y velocity_current_W * 100),
                    gps_ve = trunc (v_x velocity_current_W * 100),
                    gps_vd = trunc (- v_z velocity_current_W * 100),
                    gps_cog = course_over_ground velocity_current_W,
                    gps_satellites_visible = 10\<rparr>\<rparr>)
         else s)"

text \<open>
  The second GPS block, run \<^verbatim>\<open>gps_update_interval_\<close> after the last message:
  \<^verbatim>\<open>hil_gps_msg_\<close> is sent, the position is published on the simulator's topic and
  the time of the message is kept. The result is the state, the message handed to
  \<^verbatim>\<open>send_mavlink_message\<close> and the vector published.
\<close>

definition gps_send ::
  "world \<Rightarrow> plugin \<Rightarrow> plugin \<times> mavlink_hil_gps_t option \<times> Vector3 option" where
  "gps_send w s =
     (let current_time = sim_time w
      in if current_time - last_gps_time s > gps_update_interval then
           (s\<lparr>last_gps_time := current_time\<rparr>,
            Some (hil_gps_msg s),
            Some \<lparr>v_x = lat_rad s * 180 / pi, v_y = lon_rad s * 180 / pi,
                  v_z = real_of_int (gps_alt (hil_gps_msg s)) / 1000\<rparr>)
         else (s, None, None))"

text \<open>The vision position estimate, sent \<^verbatim>\<open>ev_update_interval_\<close> after the last
  one; \<open>dt\<close> is the time since the last update.\<close>

definition vision_estimate ::
  "params \<Rightarrow> world \<Rightarrow> real \<Rightarrow> plugin \<Rightarrow> plugin \<times> mavlink_vision_position_estimate_t option" where
  "vision_estimate P w dt s =
     (let current_time = sim_time w;
          pos_W_I = pose_pos w;
          dt_ev = current_time - last_ev_time s
      in if dt_ev > ev_update_interval then
           (let noise_ev_x = ev_noise_density P * sqrt dt_ev * draw w s 0;
                noise_ev_y = ev_noise_density P * sqrt dt_ev * draw w s 1;
                noise_ev_z = ev_noise_density P * sqrt dt_ev * draw w s 2;
                random_walk_ev_x = ev_random_walk P * sqrt dt_ev * draw w s 3;
                random_walk_ev_y = ev_random_walk P * sqrt dt_ev * draw w s 4;
                random_walk_ev_z = ev_random_walk P * sqrt dt_ev * draw w s 5;
                bias_x = ev_bias_x s + (random_walk_ev_x * dt - ev_bias_x s / ev_corellation_time P);
                bias_y = ev_bias_y s + (random_walk_ev_y * dt - ev_bias_y s / ev_corellation_time P);
                bias_z = ev_bias_z s + (random_walk_ev_z * dt - ev_bias_z s / ev_corellation_time P)
            in (s\<lparr>random_generator := random_generator s + 6,
                  ev_bias_x := bias_x, ev_bias_y := bias_y, ev_bias_z := bias_z,
                  last_ev_time := current_time\<rparr>,
                Some \<lparr>vp_usec = trunc (current_time * 1000000),
                      vp_x = v_y pos_W_I + noise_ev_y + bias_y,
                      vp_y = v_x pos_W_I + noise_ev_x + bias_x,
                      vp_z = - v_z pos_W_I + noise_ev_z + bias_z,
                      vp_roll = pose_roll w,
                      vp_pitch = - pose_pitch w,
                      vp_yaw = - pose_yaw w + pi / 2\<rparr>))
         else (s, None))"

text \<open>What one call of \<^verbatim>\<open>OnUpdate\<close> does to the outside: the joint commands, the
  motor speed message it publishes, the GPS message it sends and the position it
  publishes with it, and the vision estimate it sends.\<close>

record update_out =
  joint_commands :: "joint_command list"
  motor_speed_msg :: "real list option"
  gps_sent :: "mavlink_hil_gps_t option"
  gps_published :: "Vector3 option"
  ev_sent :: "mavlink_vision_position_estimate_t option"

definition OnUpdate :: "params \<Rightarrow> world \<Rightarrow> plugin \<Rightarrow> plugin \<times> update_out" where
  "OnUpdate P w s =
     (let current_time = sim_time w;
          dt = current_time - last_time s;
          s1 = pollForMAVLinkMessages P w s;
          hc = handle_control P w dt s1;
          s2 = fst hc;
          motor = (if received_first_referenc s2 then Some (motor_speed current_time s2)
                   else None);
          s3 = s2\<lparr>last_time := current_time\<rparr>;
          ll = reproject P (pose_pos w);
          s4 = s3\<lparr>lat_rad := fst ll, lon_rad := snd ll\<rparr>;
          s5 = gps_measure P w s4;
          gs = gps_send w s5;
          ev = vision_estimate P w dt (fst gs)
      in (fst ev,
          \<lparr>joint_commands = snd hc, motor_speed_msg = motor,
           gps_sent = fst (snd gs), gps_published = snd (snd gs), ev_sent = snd ev\<rparr>))"

text \<open>A run of the plugin: \<^verbatim>\<open>OnUpdate\<close> once per simulation step, the outputs in
  order.\<close>

fun run :: "params \<Rightarrow> world list \<Rightarrow> plugin \<Rightarrow> plugin \<times> update_out list" where
  "run P [] s = (s, [])"
| "run P (w # ws) s =
     (let r = OnUpdate P w s; rs = run P ws (fst r) in (fst rs, snd r # snd rs))"

subsection \<open>The inertial sensor callback\<close>

text \<open>The magnetic field \<^verbatim>\<open>Load\<close> stores in \<^verbatim>\<open>mag_d_\<close>.\<close>

definition mag_d :: Vector3 where
  "mag_d = \<lparr>v_x = 0.21523, v_y = 0, v_z = - 0.42741\<rparr>"

text \<open>
  The \<^verbatim>\<open>do ... while (p1 <= FLT_EPSILON)\<close> loop of \<^verbatim>\<open>ImuCallback\<close>: two calls of
  \<^verbatim>\<open>rand()\<close> per round, starting with call \<open>k\<close>. The result is \<open>p1\<close>, \<open>p2\<close> and the
  number of calls made so far, and \<open>None\<close> when the loop never ends.
\<close>

partial_function (option) uniform_pair ::
  "(nat \<Rightarrow> nat) \<Rightarrow> nat \<Rightarrow> nat \<Rightarrow> (real \<times> real \<times> nat) option" where
  "uniform_pair rand rand_max k =
     (let p1 = real (rand k) * (1 / real rand_max);
          p2 = real (rand (k + 1)) * (1 / real rand_max)
      in if p1 \<le> FLT_EPSILON then uniform_pair rand rand_max (k + 2)
         else Some (p1, p2, k + 2))"

text \<open>The normal sample \<^verbatim>\<open>n\<close>, the perturbed altitude \<^verbatim>\<open>alt_n\<close> and the value
  assigned to \<^verbatim>\<open>sensor_msg.pressure_alt\<close>, from \<^verbatim>\<open>pos_n.z\<close> and the two uniform
  samples.\<close>

definition normal_sample :: "real \<Rightarrow> real \<Rightarrow> fp" where
  "normal_sample p1 p2 =
     fp_mul (sqrtf (fp_mul (Finite (- 2)) (logf (Finite p1)))) (cosf (Finite (2 * pi * p2)))"

definition perturbed_alt :: "fp \<Rightarrow> real \<Rightarrow> real \<Rightarrow> fp" where
  "perturbed_alt pos_n_z p1 p2 =
     to_float (fp_add (fp_neg pos_n_z) (fp_mul (normal_sample p1 p2) (sqrtf (Finite 0.006))))"

definition pressure_alt :: "fp \<Rightarrow> real \<Rightarrow> real \<Rightarrow> fp" where
  "pressure_alt pos_n_z p1 p2 =
     (let alt_n = perturbed_alt pos_n_z p1 p2
      in to_float (if isfinite alt_n then alt_n else fp_neg pos_n_z))"

text \<open>
  \<^verbatim>\<open>ImuCallback\<close>: the sensor message and the ground truth message it sends, and the
  state it leaves. The three variates of the magnetometer noise are drawn in the order
  of the constructor's arguments.
\<close>

definition ImuCallback ::
  "library \<Rightarrow> params \<Rightarrow> world \<Rightarrow> Imu \<Rightarrow> plugin \<Rightarrow>
   (plugin \<times> mavlink_hil_sensor_t \<times> mavlink_hil_state_quaternion_t) option" where
  "ImuCallback lib P w imu_message s =
     (case uniform_pair (rand_values w) (RAND_MAX lib) (rand_calls s) of
        None \<Rightarrow> None
      | Some u \<Rightarrow>
          Some
           (let q_gr = imu_orientation imu_message;
                q_br = \<lparr>q_w = 0, q_x = 1, q_y = 0, q_z = 0\<rparr>;
                q_ng = \<lparr>q_w = 0, q_x = 0.70711, q_y = 0.70711, q_z = 0\<rparr>;
                q_gb = quat_mul lib q_gr (GetInverse lib q_br);
                q_nb = quat_mul lib q_ng q_gb;
                pos_g = pose_pos w;
                pos_n = RotateVector lib q_ng pos_g;
                declination = get_mag_declination lib (lat_rad s) (lon_rad s);
                q_dn = Quaternion_euler lib 0 0 declination;
                mag_n = RotateVectorReverse lib q_dn mag_d;
                vel_b = RotateVector lib q_br (relative_linear_vel w);
                vel_n = RotateVector lib q_ng (linear_vel w);
                omega_nb_b = RotateVector lib q_br (relative_angular_vel w);
                s1 = s\<lparr>standard_normal_distribution := (0, 0.01)\<rparr>;
                mag_noise_b = \<lparr>v_x = draw w s1 0, v_y = draw w s1 1, v_z = draw w s1 2\<rparr>;
                s2 = s1\<lparr>random_generator := random_generator s1 + 3\<rparr>;
                accel_b = RotateVector lib q_br (imu_linear_acceleration imu_message);
                gyro_b = RotateVector lib q_br (imu_angular_velocity imu_message);
                mag_b = vec_add (RotateVectorReverse lib q_nb mag_n) mag_noise_b;
                time_usec = trunc (sim_time w * 1000000);
                rho = 1.2754;
                p1 = fst u;
                p2 = fst (snd u);
                s3 = s2\<lparr>rand_calls := snd (snd u)\<rparr>;
                sensor_msg =
                  \<lparr>sensor_time_usec = time_usec,
                   sensor_xacc = v_x accel_b, sensor_yacc = v_y accel_b,
                   sensor_zacc = v_z accel_b,
                   sensor_xgyro = v_x gyro_b, sensor_ygyro = v_y gyro_b,
                   sensor_zgyro = v_z gyro_b,
                   sensor_xmag = v_x mag_b, sensor_ymag = v_y mag_b, sensor_zmag = v_z mag_b,
                   sensor_abs_pressure = 0,
                   sensor_diff_pressure = 0.5 * rho * v_x vel_b * v_x vel_b / 100,
                   sensor_pressure_alt = pressure_alt (Finite (v_z pos_n)) p1 p2,
                   sensor_temperature = 0,
                   sensor_fields_updated = 4095\<rparr>;
                t32 = (word_of_int time_usec :: 32 word);
                last = (case last_dt_us s3 of None \<Rightarrow> t32 | Some l \<Rightarrow> l);
                dt_us = t32 - last;
                s4 = (if 1000 < dt_us
                      then s3\<lparr>optflow_gyro :=
                                vec_add (optflow_gyro s3)
                                  (vec_scale gyro_b (real (unat dt_us) / 1000000)),
                              last_dt_us := Some t32\<rparr>
                      else s3\<lparr>last_dt_us := Some last\<rparr>);
                accel_true_b = RotateVector lib q_br (relative_linear_accel w);
                hil_state_quat =
                  \<lparr>state_time_usec = trunc (sim_time w * 1000000),
                   state_attitude_quaternion = [q_w q_nb, q_x q_nb, q_y q_nb, q_z q_nb],
                   state_rollspeed = v_x omega_nb_b,
                   state_pitchspeed = v_y omega_nb_b,
                   state_yawspeed = v_z omega_nb_b,
                   state_lat = trunc (lat_rad s * 180 / pi * 10000000),
                   state_lon = trunc (lon_rad s * 180 / pi * 10000000),
                   state_alt = trunc ((- v_z pos_n + alt_home P) * 1000),
                   state_vx = trunc (v_x vel_n * 100),
                   state_vy = trunc (v_y vel_n * 100),
                   state_vz = trunc (v_z vel_n * 100),
                   state_ind_airspeed = trunc (v_x vel_b),
                   state_true_airspeed = trunc (GetLength (linear_vel w) * 100),
                   state_xacc = trunc (v_x accel_true_b * 1000),
                   state_yacc = trunc (v_y accel_true_b * 1000),
                   state_zacc = trunc (v_z accel_true_b * 1000)\<rparr>
            in (s4, sensor_msg, hil_state_quat)))"

subsection \<open>The optical flow callback\<close>

text \<open>
  \<^verbatim>\<open>OpticalFlowCallback\<close>; \<open>now\<close> is the simulated time. The gyro fields are read
  from \<^verbatim>\<open>optflow_gyro\<close> when \<^verbatim>\<open>quality()\<close> is not zero, then the integral is reset
  and the message is sent. The fields copied into the narrower integer types of the
  MAVLink message wrap or drop their fraction.
\<close>

definition OpticalFlowCallback ::
  "real \<Rightarrow> opticalFlow \<Rightarrow> plugin \<Rightarrow> plugin \<times> mavlink_hil_optical_flow_t" where
  "OpticalFlowCallback now opticalFlow_message s =
     (let sensor_msg =
            \<lparr>flow_time_usec = trunc (now * 1000000),
             flow_sensor_id = of_sensor_id opticalFlow_message mod 256,
             flow_integration_time_us = of_integration_time_us opticalFlow_message mod 2 ^ 32,
             flow_integrated_x = of_integrated_x opticalFlow_message,
             flow_integrated_y = of_integrated_y opticalFlow_message,
             flow_integrated_xgyro =
               (if of_quality opticalFlow_message \<noteq> 0 then - v_y (optflow_gyro s) else 0),
             flow_integrated_ygyro =
               (if of_quality opticalFlow_message \<noteq> 0 then v_x (optflow_gyro s) else 0),
             flow_integrated_zgyro =
               (if of_quality opticalFlow_message \<noteq> 0 then - v_z (optflow_gyro s) else 0),
             flow_temperature = trunc (of_temperature opticalFlow_message),
             flow_quality = of_quality opticalFlow_message mod 256,
             flow_time_delta_distance_us =
               of_time_delta_distance_us opticalFlow_message mod 2 ^ 32,
             flow_distance = optflow_distance s\<rparr>
      in (s\<lparr>optflow_gyro := vec_zero\<rparr>, sensor_msg))"

subsection \<open>Views of the state and of a run\<close>

text \<open>\<open>sensor_state s s'\<close>: the members that only the sensor blocks write are the
  same in \<open>s\<close> and \<open>s'\<close>.\<close>

definition sensor_state :: "plugin \<Rightarrow> plugin \<Rightarrow> bool" where
  "sensor_state s s' \<longleftrightarrow>
     last_time s' = last_time s \<and> last_gps_time s' = last_gps_time s \<and>
     last_ev_time s' = last_ev_time s \<and> lat_rad s' = lat_rad s \<and> lon_rad s' = lon_rad s \<and>
     gps_bias_x s' = gps_bias_x s \<and> gps_bias_y s' = gps_bias_y s \<and>
     gps_bias_z s' = gps_bias_z s \<and> ev_bias_x s' = ev_bias_x s \<and>
     ev_bias_y s' = ev_bias_y s \<and> ev_bias_z s' = ev_bias_z s \<and>
     hil_gps_msg s' = hil_gps_msg s \<and>
     standard_normal_distribution s' = standard_normal_distribution s \<and>
     random_generator s' = random_generator s \<and>
     optflow_gyro s' = optflow_gyro s \<and> optflow_distance s' = optflow_distance s"

text \<open>The state in which \<^verbatim>\<open>OnUpdate\<close> reaches its GPS blocks: the messages are
  handled, the joints controlled, the time of the update kept and the position
  projected.\<close>

definition before_gps :: "params \<Rightarrow> world \<Rightarrow> plugin \<Rightarrow> plugin" where
  "before_gps P w s =
     (fst (handle_control P w (sim_time w - last_time s) (pollForMAVLinkMessages P w s)))
       \<lparr>last_time := sim_time w,
        lat_rad := fst (reproject P (pose_pos w)),
        lon_rad := snd (reproject P (pose_pos w))\<rparr>"

text \<open>The times of the steps of a run at which the GPS message is sent.\<close>

fun gps_emissions :: "params \<Rightarrow> world list \<Rightarrow> plugin \<Rightarrow> real list" where
  "gps_emissions P [] s = []"
| "gps_emissions P (w # ws) s =
     (if gps_sent (snd (OnUpdate P w s)) \<noteq> None then [sim_time w] else [])
       @ gps_emissions P ws (fst (OnUpdate P w s))"

text \<open>The commands of channel \<open>i\<close> in one call of \<^verbatim>\<open>handle_control\<close>, from the
  reference and the controller of the channel.\<close>

definition channel_commands ::
  "params \<Rightarrow> world \<Rightarrow> real \<Rightarrow> PID \<Rightarrow> real \<Rightarrow> nat \<Rightarrow> joint_command list" where
  "channel_commands P w dt pid target i =
     (case joints P ! i of
        None \<Rightarrow> []
      | Some joint \<Rightarrow>
          if joint_control_type P ! i = ''velocity''
          then [SetForce joint (fst (PID_Update P pid (joint_velocity w joint - target) dt))]
          else if joint_control_type P ! i = ''position''
          then [SetForce joint (fst (PID_Update P pid (joint_angle w joint - target) dt))]
          else if joint_control_type P ! i = ''position_gztopic'' then [Publish i target]
          else if joint_control_type P ! i = ''position_kinematic'' then [SetPosition joint target]
          else [gzerr (''joint_control_type['' @ joint_control_type P ! i @ ''] undefined.'')])"

text \<open>The microseconds \<^verbatim>\<open>dt_us\<close> that \<^verbatim>\<open>ImuCallback\<close> computes: the time of the
  sensor message less \<^verbatim>\<open>last_dt_us\<close>, in 32 bits.\<close>

definition imu_dt_us :: "world \<Rightarrow> plugin \<Rightarrow> 32 word" where
  "imu_dt_us w s =
     (let t32 = (word_of_int (trunc (sim_time w * 1000000)) :: 32 word)
      in t32 - (case last_dt_us s of None \<Rightarrow> t32 | Some l \<Rightarrow> l))"

section \<open>A concrete configuration\<close>

text \<open>
  Four motor channels scaled as in the quadrotor models, the home position of the
  source, a proportional controller for \<open>PID_Update\<close>, the state \<^verbatim>\<open>Load\<close> leaves, and
  a command with the armed bit set or clear. The theorems are evaluated on them.
\<close>

definition example_params :: params where
  "example_params =
     \<lparr>n_out_max = 4, input_offset = [0, 0, 0, 0],
      input_scaling = [1000, 1000, 1000, 1000],
      zero_position_disarmed = [0, 0, 0, 0],
      zero_position_armed = [100, 100, 100, 100],
      joint_control_type = [''velocity'', ''velocity'', ''position'', ''position_kinematic''],
      joints = [Some ''rotor_0'', None, Some ''flap'', Some ''gimbal''],
      PID_Update = (\<lambda>p err dt. (- (pGain p * err), p\<lparr>pErr := err\<rparr>)),
      lat_home = 47.397742 * pi / 180, lon_home = 8.545594 * pi / 180, alt_home = 488,
      gps_noise_density = 0.0002, gps_random_walk = 1, gps_corellation_time = 30,
      ev_noise_density = 0.0002, ev_random_walk = 1, ev_corellation_time = 30\<rparr>"

definition example_pid :: PID where
  "example_pid =
     \<lparr>pGain = 2, iGain = 0, dGain = 0, iMax = 0, iMin = 0, cmdMax = 0, cmdMin = 0,
      pErrLast = 0, pErr = 0, iErr = 0, dErr = 0, cmd = 0\<rparr>"

definition example_plugin :: plugin where
  "example_plugin =
     \<lparr>input_index = [0, 0, 0, 0], input_reference = [0, 0, 0, 0],
      last_actuator_time = 0, received_first_referenc = False,
      pids = [example_pid, example_pid, example_pid, example_pid],
      srcaddr = \<lparr>sin_addr = 0, sin_port = htons 14560\<rparr>,
      last_time = 0, last_gps_time = 0, last_ev_time = 0,
      lat_rad = 0, lon_rad = 0,
      gps_bias_x = 0, gps_bias_y = 0, gps_bias_z = 0,
      ev_bias_x = 0, ev_bias_y = 0, ev_bias_z = 0,
      hil_gps_msg =
        \<lparr>gps_time_usec = 0, gps_fix_type = 0, gps_lat = 0, gps_lon = 0, gps_alt = 0,
         gps_eph = 0, gps_epv = 0, gps_vel = 0, gps_vn = 0, gps_ve = 0, gps_vd = 0,
         gps_cog = 0, gps_satellites_visible = 0\<rparr>,
      standard_normal_distribution = (0, 1), random_generator = 0,
      optflow_gyro = vec_zero, optflow_distance = 0,
      last_dt_us = None, rand_calls = 0\<rparr>"

text \<open>The same plugin after an earlier command, received at time 3.\<close>

definition commanded_plugin :: plugin where
  "commanded_plugin =
     example_plugin\<lparr>input_index := [0, 1, 2, 3], input_reference := [600, 350, 850, 1100],
       last_actuator_time := 3, received_first_referenc := True\<rparr>"

definition example_controls :: "bool \<Rightarrow> mavlink_hil_actuator_controls_t" where
  "example_controls a =
     \<lparr>controls = [1/2, 1/4, 3/4, 1, 0, 0, 0, 0, 0, 0, 0, 0, 0, 0, 0, 0],
      mode = (if a then 129 else 1)\<rparr>"

text \<open>
  A simulation step at time \<open>t\<close> in which no datagram arrives and the joints are at
  rest: the model is at \<open>pos\<close> with velocity \<open>vel\<close>, the generator yields the variates
  \<open>z\<close> and \<^verbatim>\<open>rand()\<close> the values \<open>r\<close>.
\<close>

definition quiet_world ::
  "real \<Rightarrow> Vector3 \<Rightarrow> Vector3 \<Rightarrow> (nat \<Rightarrow> real) \<Rightarrow> (nat \<Rightarrow> nat) \<Rightarrow> world" where
  "quiet_world t pos vel z r =
     \<lparr>sim_time = t, pollin = False, recv_len = 0,
      recv_addr = \<lparr>sin_addr = 0, sin_port = 0\<rparr>, parsed = [],
      joint_velocity = (\<lambda>j. 0), joint_angle = (\<lambda>j. 0),
      pose_pos = pos, pose_roll = 0, pose_pitch = 0, pose_yaw = 0,
      linear_vel = vel, relative_linear_vel = vel, relative_angular_vel = vec_zero,
      relative_linear_accel = vec_zero, variates = z, rand_values = r\<rparr>"

text \<open>A step at time \<open>t\<close> of a model that climbs 10 m/s from the origin; every
  variate is 1 and \<^verbatim>\<open>rand()\<close> returns half of its largest value.\<close>

definition gliding :: "real \<Rightarrow> world" where
  "gliding t = quiet_world t \<lparr>v_x = 0, v_y = 0, v_z = 10 * t\<rparr> vec_zero (\<lambda>k. 1) (\<lambda>k. 1073741823)"

text \<open>
  A library whose rotations are the identity and whose declination is zero (no theorem
  depends on what the rotations are), a sample of the inertial sensor, and the
  parameters with every noise density and random walk coefficient set to zero.
\<close>

definition example_library :: library where
  "example_library =
     \<lparr>quat_mul = (\<lambda>p q. q), GetInverse = (\<lambda>q. q),
      RotateVector = (\<lambda>q v. v), RotateVectorReverse = (\<lambda>q v. v),
      Quaternion_euler = (\<lambda>roll pitch yaw. \<lparr>q_w = 1, q_x = 0, q_y = 0, q_z = 0\<rparr>),
      get_mag_declination = (\<lambda>lat lon. 0), RAND_MAX = 2147483647\<rparr>"

definition example_imu :: Imu where
  "example_imu =
     \<lparr>imu_orientation = \<lparr>q_w = 1, q_x = 0, q_y = 0, q_z = 0\<rparr>,
      imu_linear_acceleration = \<lparr>v_x = 0, v_y = 0, v_z = 9.8\<rparr>,
      imu_angular_velocity = \<lparr>v_x = 0.1, v_y = 0.2, v_z = 0.3\<rparr>\<rparr>"

definition silent_params :: params where
  "silent_params =
     example_params\<lparr>gps_noise_density := 0, gps_random_walk := 0,
       ev_noise_density := 0, ev_random_walk := 0\<rparr>"

text \<open>
  Two more steps: one in which the first value of \<^verbatim>\<open>rand()\<close> is zero, so that the
  sampling loop draws again, and one in which the model is further up than a
  \<^verbatim>\<open>float\<close> can hold.
\<close>

definition redrawing :: world where
  "redrawing = (gliding 0.1)\<lparr>rand_values := \<lambda>k. if k < 2 then 0 else 1073741823\<rparr>"

definition far_away :: world where
  "far_away = (gliding 0.1)\<lparr>pose_pos := \<lparr>v_x = 0, v_y = 0, v_z = 2 * FLT_MAX\<rparr>\<rparr>"

text \<open>An optical flow sample with the given quality, and a plugin that has integrated
  some rotation since the last sample.\<close>

definition example_flow :: "int \<Rightarrow> opticalFlow" where
  "example_flow q =
     \<lparr>of_sensor_id = 0, of_integration_time_us = 10000, of_integrated_x = 0.01,
      of_integrated_y = 0.02, of_temperature = 20, of_quality = q,
      of_time_delta_distance_us = 0\<rparr>"

definition turning_plugin :: plugin where
  "turning_plugin = example_plugin\<lparr>optflow_gyro := \<lparr>v_x = 1, v_y = 2, v_z = 3\<rparr>\<rparr>"

section \<open>Properties\<close>

subsection \<open>Array loops\<close>

lemma length_fold_upd:
  "length (fold (\<lambda>i r. r[i := g i]) [0..<n] xs) = length xs"
  by (induction n) simp_all

lemma fold_upd_prefix:
  "n \<le> length xs \<Longrightarrow>
   fold (\<lambda>i r. r[i := g i]) [0..<n] xs = map g [0..<n] @ drop n xs"
proof (induction n)
  case 0
  then show ?case by simp
next
  case (Suc n)
  then have n: "n < length xs" by simp
  have "fold (\<lambda>i r. r[i := g i]) [0..<Suc n] xs
          = (map g [0..<n] @ drop n xs)[n := g n]"
    using Suc by simp
  also have "\<dots> = map g [0..<n] @ (drop n xs)[0 := g n]"
    by (simp add: list_update_append)
  also have "drop n xs = xs ! n # drop (Suc n) xs"
    using n by (simp add: Cons_nth_drop_Suc)
  finally show ?case by simp
qed

lemma fold_upd_all:
  "fold (\<lambda>i r. r[i := g i]) [0..<length xs] xs = map g [0..<length xs]"
  using fold_upd_prefix [where n = "length xs" and xs = xs and g = g] by simp

lemma length_resize: "length (resize n xs) = n"
  by (simp add: resize_def)

subsection \<open>Actuator commands\<close>

lemma input_index_handle_message:
  "wf_plugin P s \<Longrightarrow>
   input_index (handle_message P now (HIL_ACTUATOR_CONTROLS c) s) = [0..<n_out_max P]"
  using fold_upd_all [where xs = "input_index s" and g = "\<lambda>i. i"]
  by (simp add: wf_plugin_def Let_def map_idI)

lemma input_reference_handle_message:
  "wf_plugin P s \<Longrightarrow>
   input_reference (handle_message P now (HIL_ACTUATOR_CONTROLS c) s) =
     map (reference_value P c [0..<n_out_max P] (armed_flag c)) [0..<n_out_max P]"
proof -
  assume wf: "wf_plugin P s"
  have idx: "fold (\<lambda>i idx. idx[i := i]) [0..<n_out_max P] (input_index s) = [0..<n_out_max P]"
    using wf fold_upd_all [where xs = "input_index s" and g = "\<lambda>i. i"] by (simp add: wf_plugin_def map_idI)
  show ?thesis
    using fold_upd_all [where xs = "resize (n_out_max P) (input_reference s)"
        and g = "reference_value P c [0..<n_out_max P] (armed_flag c)"]
    by (simp add: Let_def idx length_resize)
qed

text \<open>
  C1. When an actuator command is decoded, every channel \<open>i\<close> below \<^verbatim>\<open>n_out_max\<close>
  gets \<open>(controls[i] + offset[i]) * scaling[i] + zero_position_armed[i]\<close> when the armed
  bit of the mode bitmask is set, and \<open>zero_position_disarmed[i]\<close> when it is not,
  whatever the raw controls are. The command state after the message (the references,
  the time of the command, the flag that a command has arrived) does not depend on the
  state before it: any two prior states give the same one.
\<close>

theorem C1_command_decode:
  assumes "wf_params P" and "wf_plugin P s" and "wf_plugin P s'"
    and "length (controls c) = 16" and "i < n_out_max P"
  shows "input_reference (handle_message P now (HIL_ACTUATOR_CONTROLS c) s) ! i =
           (if armed_flag c
            then (controls c ! i + input_offset P ! i) * input_scaling P ! i
                   + zero_position_armed P ! i
            else zero_position_disarmed P ! i)
         \<and> length (input_reference (handle_message P now (HIL_ACTUATOR_CONTROLS c) s))
             = n_out_max P
         \<and> input_reference (handle_message P now (HIL_ACTUATOR_CONTROLS c) s')
             = input_reference (handle_message P now (HIL_ACTUATOR_CONTROLS c) s)
         \<and> last_actuator_time (handle_message P now (HIL_ACTUATOR_CONTROLS c) s) = now
         \<and> last_actuator_time (handle_message P now (HIL_ACTUATOR_CONTROLS c) s') = now
         \<and> received_first_referenc (handle_message P now (HIL_ACTUATOR_CONTROLS c) s)
         \<and> received_first_referenc (handle_message P now (HIL_ACTUATOR_CONTROLS c) s')"
proof -
  have "input_reference (handle_message P now (HIL_ACTUATOR_CONTROLS c) s) ! i =
          reference_value P c [0..<n_out_max P] (armed_flag c) i"
    using assms(2,5) by (simp add: input_reference_handle_message del: handle_message.simps)
  moreover have "[0..<n_out_max P] ! i = i"
    using assms(5) by simp
  ultimately have "input_reference (handle_message P now (HIL_ACTUATOR_CONTROLS c) s) ! i =
           (if armed_flag c
            then (controls c ! i + input_offset P ! i) * input_scaling P ! i
                   + zero_position_armed P ! i
            else zero_position_disarmed P ! i)"
    by (simp add: reference_value_def)
  moreover have "length (input_reference (handle_message P now (HIL_ACTUATOR_CONTROLS c) s))
             = n_out_max P"
    using assms(2) by (simp add: input_reference_handle_message del: handle_message.simps)
  moreover have "input_reference (handle_message P now (HIL_ACTUATOR_CONTROLS c) s')
             = input_reference (handle_message P now (HIL_ACTUATOR_CONTROLS c) s)"
    using assms(2,3) by (simp add: input_reference_handle_message del: handle_message.simps)
  moreover have "last_actuator_time (handle_message P now (HIL_ACTUATOR_CONTROLS c) s) = now"
    and "last_actuator_time (handle_message P now (HIL_ACTUATOR_CONTROLS c) s') = now"
    and "received_first_referenc (handle_message P now (HIL_ACTUATOR_CONTROLS c) s)"
    and "received_first_referenc (handle_message P now (HIL_ACTUATOR_CONTROLS c) s')"
    by (simp_all add: Let_def)
  ultimately show ?thesis by blast
qed

theorem C1_command_decode_witness:
  "wf_params example_params \<and> wf_plugin example_params example_plugin
   \<and> wf_plugin example_params commanded_plugin
   \<and> length (controls (example_controls True)) = 16 \<and> (2::nat) < n_out_max example_params
   \<and> input_reference (handle_message example_params 7
         (HIL_ACTUATOR_CONTROLS (example_controls True)) example_plugin) ! 2 = 850
   \<and> input_reference (handle_message example_params 7
         (HIL_ACTUATOR_CONTROLS (example_controls False)) example_plugin) ! 2 = 0
   \<and> input_reference (handle_message example_params 7
         (HIL_ACTUATOR_CONTROLS (example_controls True)) commanded_plugin)
       = input_reference (handle_message example_params 7
         (HIL_ACTUATOR_CONTROLS (example_controls True)) example_plugin)"
proof -
  have p: "wf_params example_params"
    by (simp add: wf_params_def example_params_def)
  have s: "wf_plugin example_params example_plugin"
    and s': "wf_plugin example_params commanded_plugin"
    by (simp_all add: wf_plugin_def example_params_def example_plugin_def commanded_plugin_def)
  have l: "length (controls (example_controls a)) = 16" for a
    by (simp add: example_controls_def)
  have i: "(2::nat) < n_out_max example_params"
    by (simp add: example_params_def)
  have a: "armed_flag (example_controls True)" and d: "\<not> armed_flag (example_controls False)"
    by (simp_all add: armed_flag_def example_controls_def MAV_MODE_FLAG_SAFETY_ARMED_def)
  note on = C1_command_decode [OF p s s' l i, of 7 True]
  note off = C1_command_decode [OF p s s' l i, of 7 False]
  have "input_reference (handle_message example_params 7
         (HIL_ACTUATOR_CONTROLS (example_controls True)) example_plugin) ! 2 = 850"
    using on a by (simp add: example_params_def example_controls_def del: handle_message.simps)
  moreover have "input_reference (handle_message example_params 7
         (HIL_ACTUATOR_CONTROLS (example_controls False)) example_plugin) ! 2 = 0"
    using off d by (simp add: example_params_def example_controls_def del: handle_message.simps)
  ultimately show ?thesis
    using p s s' l i on by blast
qed


subsection \<open>What the command path leaves alone\<close>

lemma sensor_state_refl: "sensor_state s s"
  by (simp add: sensor_state_def)

lemma sensor_state_trans: "sensor_state s s' \<Longrightarrow> sensor_state s' s'' \<Longrightarrow> sensor_state s s''"
  by (simp add: sensor_state_def)

lemma handle_message_sensor_state: "sensor_state s (handle_message P now m s)"
  by (cases m) (simp_all add: sensor_state_def Let_def)

lemma fold_handle_message_sensor_state:
  "sensor_state s (fold (handle_message P now) ms s)"
proof (induction ms arbitrary: s)
  case Nil
  show ?case by (simp add: sensor_state_refl)
next
  case (Cons m ms)
  have "sensor_state s (handle_message P now m s)"
    by (rule handle_message_sensor_state)
  moreover have "sensor_state (handle_message P now m s)
                   (fold (handle_message P now) ms (handle_message P now m s))"
    by (rule Cons.IH)
  ultimately show ?case
    by (simp del: handle_message.simps) (rule sensor_state_trans)
qed

lemma poll_sensor_state: "sensor_state s (pollForMAVLinkMessages P w s)"
proof -
  have "sensor_state s (s\<lparr>srcaddr := recv_addr w\<rparr>)"
    by (simp add: sensor_state_def)
  moreover have "sensor_state (s\<lparr>srcaddr := recv_addr w\<rparr>)
      (fold (handle_message P (sim_time w)) (parsed w) (s\<lparr>srcaddr := recv_addr w\<rparr>))"
    by (rule fold_handle_message_sensor_state)
  ultimately have "sensor_state s
      (fold (handle_message P (sim_time w)) (parsed w) (s\<lparr>srcaddr := recv_addr w\<rparr>))"
    by (rule sensor_state_trans)
  then show ?thesis
    by (simp add: pollForMAVLinkMessages_def Let_def sensor_state_refl)
       (simp add: sensor_state_def)
qed

lemma handle_control_sensor_state: "sensor_state s (fst (handle_control P w dt s))"
  by (simp add: handle_control_def Let_def sensor_state_def)

lemma handle_control_command:
  "input_reference (fst (handle_control P w dt s)) = input_reference s"
  "last_actuator_time (fst (handle_control P w dt s)) = last_actuator_time s"
  "received_first_referenc (fst (handle_control P w dt s)) = received_first_referenc s"
  by (simp_all add: handle_control_def Let_def)

subsection \<open>The state and the outputs of an update\<close>

lemma OnUpdate_state:
  "fst (OnUpdate P w s) =
     fst (vision_estimate P w (sim_time w - last_time s)
            (fst (gps_send w (gps_measure P w (before_gps P w s)))))"
  by (simp add: OnUpdate_def Let_def before_gps_def)

lemma OnUpdate_gps_out:
  "gps_sent (snd (OnUpdate P w s)) = fst (snd (gps_send w (gps_measure P w (before_gps P w s))))"
  "gps_published (snd (OnUpdate P w s)) = snd (snd (gps_send w (gps_measure P w (before_gps P w s))))"
  by (simp_all add: OnUpdate_def Let_def before_gps_def)

lemma before_gps_fields:
  "last_gps_time (before_gps P w s) = last_gps_time s"
  "gps_bias_x (before_gps P w s) = gps_bias_x s"
  "gps_bias_y (before_gps P w s) = gps_bias_y s"
  "gps_bias_z (before_gps P w s) = gps_bias_z s"
  "hil_gps_msg (before_gps P w s) = hil_gps_msg s"
  "standard_normal_distribution (before_gps P w s) = standard_normal_distribution s"
  "random_generator (before_gps P w s) = random_generator s"
  "last_ev_time (before_gps P w s) = last_ev_time s"
  "ev_bias_x (before_gps P w s) = ev_bias_x s"
  "ev_bias_y (before_gps P w s) = ev_bias_y s"
  "ev_bias_z (before_gps P w s) = ev_bias_z s"
  "lat_rad (before_gps P w s) = fst (reproject P (pose_pos w))"
  "lon_rad (before_gps P w s) = snd (reproject P (pose_pos w))"
proof -
  have "sensor_state s (fst (handle_control P w (sim_time w - last_time s)
                               (pollForMAVLinkMessages P w s)))"
    using poll_sensor_state handle_control_sensor_state by (rule sensor_state_trans)
  then show
  "last_gps_time (before_gps P w s) = last_gps_time s"
  "gps_bias_x (before_gps P w s) = gps_bias_x s"
  "gps_bias_y (before_gps P w s) = gps_bias_y s"
  "gps_bias_z (before_gps P w s) = gps_bias_z s"
  "hil_gps_msg (before_gps P w s) = hil_gps_msg s"
  "standard_normal_distribution (before_gps P w s) = standard_normal_distribution s"
  "random_generator (before_gps P w s) = random_generator s"
  "last_ev_time (before_gps P w s) = last_ev_time s"
  "ev_bias_x (before_gps P w s) = ev_bias_x s"
  "ev_bias_y (before_gps P w s) = ev_bias_y s"
  "ev_bias_z (before_gps P w s) = ev_bias_z s"
  "lat_rad (before_gps P w s) = fst (reproject P (pose_pos w))"
  "lon_rad (before_gps P w s) = snd (reproject P (pose_pos w))"
    by (simp_all add: before_gps_def sensor_state_def)
qed

lemma draw_before_gps: "draw w (before_gps P w s) k = draw w s k"
  by (simp add: draw_def before_gps_fields)

lemma gps_measure_fields:
  "last_gps_time (gps_measure P w s) = last_gps_time s"
  "lat_rad (gps_measure P w s) = lat_rad s"
  "lon_rad (gps_measure P w s) = lon_rad s"
  "last_ev_time (gps_measure P w s) = last_ev_time s"
  by (simp_all add: gps_measure_def Let_def)

lemma gps_send_fields:
  "last_gps_time (fst (gps_send w s)) =
     (if sim_time w - last_gps_time s > gps_update_interval then sim_time w else last_gps_time s)"
  "hil_gps_msg (fst (gps_send w s)) = hil_gps_msg s"
  "gps_bias_x (fst (gps_send w s)) = gps_bias_x s"
  "gps_bias_y (fst (gps_send w s)) = gps_bias_y s"
  "gps_bias_z (fst (gps_send w s)) = gps_bias_z s"
  "lat_rad (fst (gps_send w s)) = lat_rad s"
  "lon_rad (fst (gps_send w s)) = lon_rad s"
  "random_generator (fst (gps_send w s)) = random_generator s"
  "fst (snd (gps_send w s)) =
     (if sim_time w - last_gps_time s > gps_update_interval then Some (hil_gps_msg s) else None)"
  by (simp_all add: gps_send_def Let_def)

lemma vision_estimate_fields:
  "last_gps_time (fst (vision_estimate P w dt s)) = last_gps_time s"
  "hil_gps_msg (fst (vision_estimate P w dt s)) = hil_gps_msg s"
  "gps_bias_x (fst (vision_estimate P w dt s)) = gps_bias_x s"
  "gps_bias_y (fst (vision_estimate P w dt s)) = gps_bias_y s"
  "gps_bias_z (fst (vision_estimate P w dt s)) = gps_bias_z s"
  "lat_rad (fst (vision_estimate P w dt s)) = lat_rad s"
  "lon_rad (fst (vision_estimate P w dt s)) = lon_rad s"
  by (simp_all add: vision_estimate_def Let_def)

lemma OnUpdate_last_gps_time:
  "last_gps_time (fst (OnUpdate P w s)) =
     (if sim_time w - last_gps_time s > gps_update_interval then sim_time w else last_gps_time s)"
  by (simp add: OnUpdate_state vision_estimate_fields gps_send_fields gps_measure_fields
      before_gps_fields)

lemma OnUpdate_hil_gps_msg:
  "hil_gps_msg (fst (OnUpdate P w s)) = hil_gps_msg (gps_measure P w (before_gps P w s))"
  by (simp add: OnUpdate_state vision_estimate_fields gps_send_fields)

lemma OnUpdate_gps_sent:
  "gps_sent (snd (OnUpdate P w s)) =
     (if sim_time w - last_gps_time s > gps_update_interval
      then Some (hil_gps_msg (fst (OnUpdate P w s))) else None)"
  by (simp add: OnUpdate_gps_out OnUpdate_hil_gps_msg gps_send_fields gps_measure_fields
      before_gps_fields)

lemma OnUpdate_lat_lon:
  "lat_rad (fst (OnUpdate P w s)) = fst (reproject P (pose_pos w))"
  "lon_rad (fst (OnUpdate P w s)) = snd (reproject P (pose_pos w))"
  by (simp_all add: OnUpdate_state vision_estimate_fields gps_send_fields gps_measure_fields
      before_gps_fields)

subsection \<open>Stale commands\<close>

lemma control_channel_step:
  "snd (control_channel P w dt ref i st) = snd st @ channel_commands P w dt (fst st ! i) (ref ! i) i"
  "j \<noteq> i \<Longrightarrow> fst (control_channel P w dt ref i st) ! j = fst st ! j"
  by (simp_all add: control_channel_def channel_commands_def Let_def split: option.split)

lemma control_loop:
  "snd (fold (control_channel P w dt ref) [0..<n] (ps, [])) =
     concat (map (\<lambda>i. channel_commands P w dt (ps ! i) (ref ! i) i) [0..<n])
   \<and> (\<forall>j\<ge>n. fst (fold (control_channel P w dt ref) [0..<n] (ps, [])) ! j = ps ! j)"
proof (induction n)
  case 0
  show ?case by simp
next
  case (Suc n)
  let ?st = "fold (control_channel P w dt ref) [0..<n] (ps, [])"
  have a: "snd ?st = concat (map (\<lambda>i. channel_commands P w dt (ps ! i) (ref ! i) i) [0..<n])"
    and b: "\<And>j. n \<le> j \<Longrightarrow> fst ?st ! j = ps ! j"
    using Suc.IH by simp_all
  have "snd (control_channel P w dt ref n ?st) =
          snd ?st @ channel_commands P w dt (ps ! n) (ref ! n) n"
    using b [of n] by (simp add: control_channel_step(1))
  moreover have "\<forall>j\<ge>Suc n. fst (control_channel P w dt ref n ?st) ! j = ps ! j"
    using b by (simp add: control_channel_step(2))
  ultimately show ?case by (simp add: a)
qed

lemma handle_control_commands:
  "snd (handle_control P w dt s) =
     concat (map (\<lambda>i. channel_commands P w dt (pids s ! i) (input_reference s ! i) i)
               [0..<length (input_reference s)])"
  using control_loop [of P w dt "input_reference s" "length (input_reference s)" "pids s"]
  by (simp add: handle_control_def Let_def)

lemma OnUpdate_command_out:
  "joint_commands (snd (OnUpdate P w s)) =
     snd (handle_control P w (sim_time w - last_time s) (pollForMAVLinkMessages P w s))"
  "motor_speed_msg (snd (OnUpdate P w s)) =
     (if received_first_referenc (pollForMAVLinkMessages P w s)
      then Some (motor_speed (sim_time w) (pollForMAVLinkMessages P w s)) else None)"
  by (simp_all add: OnUpdate_def Let_def handle_control_command motor_speed_def)

lemma OnUpdate_input_reference:
  "input_reference (fst (OnUpdate P w s)) = input_reference (pollForMAVLinkMessages P w s)"
  by (simp add: OnUpdate_state vision_estimate_def gps_send_def gps_measure_def Let_def
      before_gps_def handle_control_command)

text \<open>
  C2. In a step in which a command has been decoded and more than 0.2 s of simulated time
  have passed since the last one (both read after the messages of this step are
  handled), the motor speed message published is zero in every channel, while the joint
  commands of the same step are computed from the references of the last command, which
  the step leaves as they are: \<open>channel_commands\<close> is given the reference of its
  channel as the target.
\<close>

theorem C2_stale_command:
  assumes "received_first_referenc (pollForMAVLinkMessages P w s)"
    and "sim_time w - last_actuator_time (pollForMAVLinkMessages P w s) > 0.2"
  shows "motor_speed_msg (snd (OnUpdate P w s)) =
           Some (replicate (length (input_reference (pollForMAVLinkMessages P w s))) 0)
         \<and> joint_commands (snd (OnUpdate P w s)) =
             concat (map (\<lambda>i. channel_commands P w (sim_time w - last_time s)
                               (pids (pollForMAVLinkMessages P w s) ! i)
                               (input_reference (pollForMAVLinkMessages P w s) ! i) i)
                       [0..<length (input_reference (pollForMAVLinkMessages P w s))])
         \<and> input_reference (fst (OnUpdate P w s)) =
             input_reference (pollForMAVLinkMessages P w s)"
proof -
  let ?s1 = "pollForMAVLinkMessages P w s"
  have "motor_speed (sim_time w) ?s1 = replicate (length (input_reference ?s1)) 0"
    using assms(2) by (simp add: motor_speed_def map_replicate_const)
  then have "motor_speed_msg (snd (OnUpdate P w s)) =
           Some (replicate (length (input_reference ?s1)) 0)"
    using assms(1) by (simp add: OnUpdate_command_out)
  then show ?thesis
    by (simp add: OnUpdate_command_out(1) handle_control_commands OnUpdate_input_reference)
qed

lemma poll_quiet: "pollForMAVLinkMessages P (quiet_world t pos vel z r) s = s"
  by (simp add: pollForMAVLinkMessages_def quiet_world_def)

theorem C2_stale_command_witness:
  "received_first_referenc (pollForMAVLinkMessages example_params
       (quiet_world 3.5 vec_zero vec_zero (\<lambda>k. 0) (\<lambda>k. 1)) commanded_plugin)
   \<and> 3.5 - last_actuator_time (pollForMAVLinkMessages example_params
       (quiet_world 3.5 vec_zero vec_zero (\<lambda>k. 0) (\<lambda>k. 1)) commanded_plugin) > 0.2
   \<and> motor_speed_msg (snd (OnUpdate example_params
       (quiet_world 3.5 vec_zero vec_zero (\<lambda>k. 0) (\<lambda>k. 1)) commanded_plugin)) = Some [0, 0, 0, 0]
   \<and> joint_commands (snd (OnUpdate example_params
       (quiet_world 3.5 vec_zero vec_zero (\<lambda>k. 0) (\<lambda>k. 1)) commanded_plugin))
       = [SetForce ''rotor_0'' 1200, SetForce ''flap'' 1700, SetPosition ''gimbal'' 1100]
   \<and> input_reference (fst (OnUpdate example_params
       (quiet_world 3.5 vec_zero vec_zero (\<lambda>k. 0) (\<lambda>k. 1)) commanded_plugin))
       = [600, 350, 850, 1100]"
proof -
  let ?w = "quiet_world 3.5 vec_zero vec_zero (\<lambda>k. 0) (\<lambda>k. 1)"
  have p: "pollForMAVLinkMessages example_params ?w commanded_plugin = commanded_plugin"
    by (rule poll_quiet)
  have r: "received_first_referenc (pollForMAVLinkMessages example_params ?w commanded_plugin)"
    unfolding p by (simp add: commanded_plugin_def)
  have t: "sim_time ?w - last_actuator_time (pollForMAVLinkMessages example_params ?w commanded_plugin) > 0.2"
    unfolding p by (simp add: commanded_plugin_def quiet_world_def)
  have i: "[0..<4] = [0, 1, 2, 3]" by (simp add: upt_rec)
  have c: "concat (map (\<lambda>i. channel_commands example_params ?w (sim_time ?w - last_time commanded_plugin)
                               (pids commanded_plugin ! i)
                               (input_reference commanded_plugin ! i) i)
                       [0..<length (input_reference commanded_plugin)])
        = [SetForce ''rotor_0'' 1200, SetForce ''flap'' 1700, SetPosition ''gimbal'' 1100]"
    by (simp add: commanded_plugin_def example_plugin_def i channel_commands_def
        example_params_def example_pid_def quiet_world_def)
  show ?thesis
    using C2_stale_command [OF r t] r t unfolding p c
    by (simp add: commanded_plugin_def example_plugin_def quiet_world_def)
qed

subsection \<open>The projection at the home position\<close>

lemma reproject_home:
  "v_x pos = 0 \<Longrightarrow> v_y pos = 0 \<Longrightarrow> reproject P pos = (lat_home P, lon_home P)"
  by (simp add: reproject_def)

text \<open>
  C3. For every home position, a model that is neither north nor east of the origin is
  projected to exactly the home latitude and longitude, and \<^verbatim>\<open>OnUpdate\<close> stores them
  in \<^verbatim>\<open>lat_rad\<close> and \<^verbatim>\<open>lon_rad\<close>.
\<close>

theorem C3_zero_displacement:
  assumes "v_x (pose_pos w) = 0" and "v_y (pose_pos w) = 0"
  shows "reproject P (pose_pos w) = (lat_home P, lon_home P)
         \<and> lat_rad (fst (OnUpdate P w s)) = lat_home P
         \<and> lon_rad (fst (OnUpdate P w s)) = lon_home P"
  using assms by (simp add: OnUpdate_lat_lon reproject_home)

theorem C3_zero_displacement_witness:
  "v_x (pose_pos (quiet_world 1 \<lparr>v_x = 0, v_y = 0, v_z = 12\<rparr> vec_zero (\<lambda>k. 1) (\<lambda>k. 1))) = 0
   \<and> v_y (pose_pos (quiet_world 1 \<lparr>v_x = 0, v_y = 0, v_z = 12\<rparr> vec_zero (\<lambda>k. 1) (\<lambda>k. 1))) = 0
   \<and> lat_rad (fst (OnUpdate example_params
         (quiet_world 1 \<lparr>v_x = 0, v_y = 0, v_z = 12\<rparr> vec_zero (\<lambda>k. 1) (\<lambda>k. 1)) example_plugin))
       = 47.397742 * pi / 180
   \<and> lon_rad (fst (OnUpdate example_params
         (quiet_world 1 \<lparr>v_x = 0, v_y = 0, v_z = 12\<rparr> vec_zero (\<lambda>k. 1) (\<lambda>k. 1)) example_plugin))
       = 8.545594 * pi / 180"
proof -
  have x: "v_x (pose_pos (quiet_world 1 \<lparr>v_x = 0, v_y = 0, v_z = 12\<rparr> vec_zero (\<lambda>k. 1) (\<lambda>k. 1))) = 0"
    and y: "v_y (pose_pos (quiet_world 1 \<lparr>v_x = 0, v_y = 0, v_z = 12\<rparr> vec_zero (\<lambda>k. 1) (\<lambda>k. 1))) = 0"
    by (simp_all add: quiet_world_def)
  show ?thesis
    using C3_zero_displacement [OF x y, of example_params example_plugin] x y
    by (simp add: example_params_def)
qed

subsection \<open>The rate of the GPS messages\<close>

lemma gps_sent_iff:
  "gps_sent (snd (OnUpdate P w s)) \<noteq> None \<longleftrightarrow> sim_time w - last_gps_time s > gps_update_interval"
  by (simp add: OnUpdate_gps_sent)

lemma gps_emissions_after:
  "list_all (\<lambda>t. t - last_gps_time s > gps_update_interval) (gps_emissions P ws s)"
proof (induction ws arbitrary: s)
  case Nil
  show ?case by simp
next
  case (Cons w ws)
  let ?s' = "fst (OnUpdate P w s)"
  have IH: "list_all (\<lambda>t. t - last_gps_time ?s' > gps_update_interval) (gps_emissions P ws ?s')"
    by (rule Cons.IH)
  have pos: "0 < gps_update_interval" by (simp add: gps_update_interval_def)
  show ?case
  proof (cases "sim_time w - last_gps_time s > gps_update_interval")
    case True
    then have l: "last_gps_time ?s' = sim_time w" by (simp add: OnUpdate_last_gps_time)
    have "list_all (\<lambda>t. t - last_gps_time s > gps_update_interval) (gps_emissions P ws ?s')"
      using IH True pos unfolding l list_all_iff by auto
    with True show ?thesis by (simp add: OnUpdate_gps_sent)
  next
    case False
    then have l: "last_gps_time ?s' = last_gps_time s" by (simp add: OnUpdate_last_gps_time)
    with IH False show ?thesis by (simp add: OnUpdate_gps_sent)
  qed
qed

lemma gps_emissions_apart:
  "sorted_wrt (\<lambda>a b. b - a > gps_update_interval) (gps_emissions P ws s)"
proof (induction ws arbitrary: s)
  case Nil
  show ?case by simp
next
  case (Cons w ws)
  let ?s' = "fst (OnUpdate P w s)"
  show ?case
  proof (cases "sim_time w - last_gps_time s > gps_update_interval")
    case True
    then have l: "last_gps_time ?s' = sim_time w" by (simp add: OnUpdate_last_gps_time)
    have "list_all (\<lambda>t. t - sim_time w > gps_update_interval) (gps_emissions P ws ?s')"
      using gps_emissions_after [of ?s' P ws] by (simp add: l)
    with True Cons.IH [of ?s'] show ?thesis
      by (simp add: OnUpdate_gps_sent list_all_iff)
  next
    case False
    with Cons.IH [of ?s'] show ?thesis by (simp add: OnUpdate_gps_sent)
  qed
qed

lemma gps_emissions_example:
  "gps_emissions example_params
     [quiet_world 0.1 vec_zero vec_zero (\<lambda>k. 0) (\<lambda>k. 1),
      quiet_world 0.25 vec_zero vec_zero (\<lambda>k. 0) (\<lambda>k. 1),
      quiet_world 0.3 vec_zero vec_zero (\<lambda>k. 0) (\<lambda>k. 1),
      quiet_world 0.5 vec_zero vec_zero (\<lambda>k. 0) (\<lambda>k. 1)] example_plugin = [0.25, 0.5]"
proof -
  have t: "sim_time (quiet_world t p v z r) = t" for t p v z r
    by (simp add: quiet_world_def)
  have l: "last_gps_time example_plugin = 0"
    by (simp add: example_plugin_def)
  show ?thesis
    by (simp add: OnUpdate_gps_sent OnUpdate_last_gps_time t l gps_update_interval_def)
qed

text \<open>
  C6. With the interval 0.2 s and the delay 0.12 s that \<^verbatim>\<open>Load\<close> assigns, a step sends
  the GPS message exactly when more than 0.2 s have passed since the last one was sent,
  so in the first step in which that is the case and in no step within 0.08 s of the
  last message; a step that sends sets the time of the last message to its own time,
  and no other step changes it. In every run every message is sent more than 0.2 s
  (and so more than 0.08 s) after the one before the run, and any two messages of the
  run are more than 0.2 s apart: no window of 0.2 s holds two of them.
\<close>

theorem C6_gps_rate_gate:
  "gps_update_interval = 0.2 \<and> gps_update_interval - gps_delay = 0.08
   \<and> (gps_sent (snd (OnUpdate P w s)) \<noteq> None) = (sim_time w - last_gps_time s > 0.2)
   \<and> (gps_sent (snd (OnUpdate P w s)) \<noteq> None) =
       (sim_time w - last_gps_time s > 0.08 \<and> sim_time w - last_gps_time s > 0.2)
   \<and> last_gps_time (fst (OnUpdate P w s)) =
       (if gps_sent (snd (OnUpdate P w s)) \<noteq> None then sim_time w else last_gps_time s)
   \<and> list_all (\<lambda>t. t - last_gps_time s > 0.2) (gps_emissions P ws s)
   \<and> list_all (\<lambda>t. t - last_gps_time s > 0.08) (gps_emissions P ws s)
   \<and> sorted_wrt (\<lambda>a b. b - a > 0.2) (gps_emissions P ws s)"
proof -
  have i: "gps_update_interval = 0.2" by (simp add: gps_update_interval_def)
  have d: "gps_update_interval - gps_delay = 0.08"
    by (simp add: gps_update_interval_def gps_delay_def)
  have a: "(gps_sent (snd (OnUpdate P w s)) \<noteq> None) = (sim_time w - last_gps_time s > 0.2)"
    using gps_sent_iff [of P w s] by (simp add: i)
  have b: "(gps_sent (snd (OnUpdate P w s)) \<noteq> None) =
       (sim_time w - last_gps_time s > 0.08 \<and> sim_time w - last_gps_time s > 0.2)"
    unfolding a by auto
  have c: "last_gps_time (fst (OnUpdate P w s)) =
       (if gps_sent (snd (OnUpdate P w s)) \<noteq> None then sim_time w else last_gps_time s)"
    unfolding a by (simp add: OnUpdate_last_gps_time i)
  have e: "list_all (\<lambda>t. t - last_gps_time s > 0.2) (gps_emissions P ws s)"
    using gps_emissions_after [of s P ws] by (simp add: i)
  then have f: "list_all (\<lambda>t. t - last_gps_time s > 0.08) (gps_emissions P ws s)"
    unfolding list_all_iff by auto
  have g: "sorted_wrt (\<lambda>a b. b - a > 0.2) (gps_emissions P ws s)"
    using gps_emissions_apart [of P ws s] by (simp add: i)
  show ?thesis
    by (intro conjI) (fact i d a b c e f g)+
qed

subsection \<open>The course over ground\<close>

lemma atan2_range: "- pi < atan2 y x \<and> atan2 y x \<le> pi"
proof -
  have b: "- (pi / 2) < arctan (y / x)" "arctan (y / x) < pi / 2"
    by (rule arctan_lbound, rule arctan_ubound)
  have "x < 0 \<Longrightarrow> 0 \<le> y \<Longrightarrow> arctan (y / x) \<le> 0"
    by (simp add: divide_nonneg_neg arctan_le_zero_iff)
  moreover have "x < 0 \<Longrightarrow> y < 0 \<Longrightarrow> 0 < arctan (y / x)"
    by (simp add: divide_neg_neg arctan_less_zero_iff zero_less_arctan_iff)
  ultimately have c: "x < 0 \<Longrightarrow> 0 \<le> y \<Longrightarrow> arctan (y / x) \<le> 0"
    "x < 0 \<Longrightarrow> y < 0 \<Longrightarrow> 0 < arctan (y / x)"
    by blast+
  consider "0 < x" | "x < 0" "0 \<le> y" | "x < 0" "y < 0" | "x = 0" "0 < y" | "x = 0" "y < 0"
    | "x = 0" "y = 0"
    by linarith
  then show ?thesis
  proof cases
    case 1
    then show ?thesis using b pi_gt_zero by (simp add: atan2_def)
  next
    case 2
    then show ?thesis using b c(1) pi_gt_zero by (simp add: atan2_def)
  next
    case 3
    then show ?thesis using b c(2) pi_gt_zero by (simp add: atan2_def)
  next
    case 4
    then show ?thesis using pi_gt_zero by (simp add: atan2_def)
  next
    case 5
    then show ?thesis using pi_gt_zero by (simp add: atan2_def; linarith)
  next
    case 6
    then show ?thesis using pi_gt_zero by (simp add: atan2_def)
  qed
qed

lemma atan2_sin_cos:
  assumes "- pi < a" and "a \<le> pi"
  shows "atan2 (sin a) (cos a) = a"
proof -
  consider "- pi / 2 < a \<and> a < pi / 2" | "a = pi / 2" | "a = - pi / 2"
    | "pi / 2 < a" | "a < - pi / 2"
    by linarith
  then show ?thesis
  proof cases
    case 1
    then have "0 < cos a" by (simp add: cos_gt_zero_pi)
    moreover have "arctan (tan a) = a" using 1 by (simp add: arctan_tan)
    ultimately show ?thesis by (simp add: atan2_def tan_def)
  next
    case 2
    have "cos (pi / 2) = 0" "sin (pi / 2) = 1" by simp_all
    then show ?thesis unfolding 2 by (simp add: atan2_def)
  next
    case 3
    have "cos (- pi / 2) = 0" "sin (- pi / 2) = - 1"
      using cos_minus [of "pi / 2"] sin_minus [of "pi / 2"] by simp_all
    then show ?thesis unfolding 3 by (simp add: atan2_def)
  next
    case 4
    have c: "cos (a - pi) = - cos a"
      by (simp add: cos_diff)
    have r: "- (pi / 2) < a - pi" "a - pi < pi / 2" using 4 assms by simp_all
    then have "0 < cos (a - pi)" by (rule cos_gt_zero_pi)
    then have neg: "cos a < 0" using c by linarith
    have "0 \<le> sin (pi - a)" using 4 assms by (intro sin_ge_zero) simp_all
    then have nonneg: "0 \<le> sin a" by simp
    have "tan (a - pi) = tan a"
      using tan_periodic_pi [of "a - pi"] by simp
    moreover have "arctan (tan (a - pi)) = a - pi"
      using r by (rule arctan_tan)
    ultimately have "arctan (sin a / cos a) = a - pi"
      by (simp add: tan_def)
    then show ?thesis using neg nonneg by (simp add: atan2_def)
  next
    case 5
    have c: "cos (a + pi) = - cos a" and s: "sin (a + pi) = - sin a"
      by simp_all
    have r: "- (pi / 2) < a + pi" "a + pi < pi / 2" using 5 assms by simp_all
    then have "0 < cos (a + pi)" by (rule cos_gt_zero_pi)
    then have neg: "cos a < 0" using c by linarith
    have "0 < sin (a + pi)" using 5 assms by (intro sin_gt_zero) simp_all
    then have neg': "sin a < 0" using s by linarith
    have "tan (a + pi) = tan a"
      by (rule tan_periodic_pi)
    moreover have "arctan (tan (a + pi)) = a + pi"
      using r by (rule arctan_tan)
    ultimately have "arctan (sin a / cos a) = a + pi"
      by (simp add: tan_def)
    then show ?thesis using neg neg' by (simp add: atan2_def)
  qed
qed

lemma Normalize_atan2: "Normalize (atan2 y x) = atan2 y x"
  unfolding Normalize_def using atan2_range [of y x] by (intro atan2_sin_cos) simp_all

lemma GetDegrees360_range: "0 \<le> GetDegrees360 a \<and> GetDegrees360 a < 360"
proof -
  define d where "d = Degree a"
  have "of_int \<lfloor>d / 360\<rfloor> \<le> d / 360" "d / 360 < of_int \<lfloor>d / 360\<rfloor> + 1"
    by linarith+
  then show ?thesis
    unfolding GetDegrees360_def d_def [symmetric] by (simp add: field_simps)
qed

lemma GetDegrees360_half_turn:
  assumes "- pi < a" and "a \<le> pi"
  shows "GetDegrees360 a = (if a < 0 then Degree a + 360 else Degree a)"
proof -
  have d: "- 180 < Degree a" "Degree a \<le> 180"
    using assms pi_gt_zero by (simp_all add: Degree_def field_simps)
  have s: "(Degree a < 0) = (a < 0)"
    using pi_gt_zero by (simp add: Degree_def field_simps mult_less_0_iff)
  show ?thesis
  proof (cases "a < 0")
    case True
    then have "Degree a < 0" using s by simp
    then have "\<lfloor>Degree a / 360\<rfloor> = - 1" using d by (simp add: floor_eq_iff)
    with True show ?thesis by (simp add: GetDegrees360_def)
  next
    case False
    then have "0 \<le> Degree a" using s by simp
    then have "\<lfloor>Degree a / 360\<rfloor> = 0" using d by (simp add: floor_eq_iff)
    with False show ?thesis by (simp add: GetDegrees360_def)
  qed
qed

lemma course_over_ground_eq:
  "course_over_ground v = \<lfloor>GetDegrees360 (atan2 (v_x v) (v_y v)) * 100\<rfloor>"
  using GetDegrees360_range [of "atan2 (v_x v) (v_y v)"]
  by (simp add: course_over_ground_def Let_def Normalize_atan2 trunc_def)

lemma course_over_ground_range: "0 \<le> course_over_ground v \<and> course_over_ground v < 36000"
proof -
  have "0 \<le> GetDegrees360 (atan2 (v_x v) (v_y v)) * 100"
    and "GetDegrees360 (atan2 (v_x v) (v_y v)) * 100 < 36000"
    using GetDegrees360_range [of "atan2 (v_x v) (v_y v)"] by simp_all
  then show ?thesis
    unfolding course_over_ground_eq by (simp add: floor_less_iff)
qed

lemma OnUpdate_gps_cog:
  "gps_cog (hil_gps_msg (fst (OnUpdate P w s))) =
     (if sim_time w - last_gps_time s > gps_update_interval - gps_delay
      then course_over_ground (linear_vel w) else gps_cog (hil_gps_msg s))"
  by (simp add: OnUpdate_hil_gps_msg gps_measure_def Let_def before_gps_fields)

lemma compass:
  "atan2 0 1 = 0" "atan2 1 0 = pi / 2" "atan2 0 (- 1) = pi" "atan2 (- 1) 0 = - (pi / 2)"
  by (simp_all add: atan2_def)

lemma course_over_ground_compass:
  "course_over_ground \<lparr>v_x = 0, v_y = 1, v_z = 0\<rparr> = 0"
  "course_over_ground \<lparr>v_x = 1, v_y = 0, v_z = 0\<rparr> = 9000"
  "course_over_ground \<lparr>v_x = 0, v_y = - 1, v_z = 0\<rparr> = 18000"
  "course_over_ground \<lparr>v_x = - 1, v_y = 0, v_z = 0\<rparr> = 27000"
  using pi_gt_zero
  by (simp_all add: course_over_ground_eq compass GetDegrees360_def Degree_def)

text \<open>
  C9. For every world velocity the course over ground of the GPS message is the angle
  \<open>atan2 (x, y)\<close> of the velocity, so the bearing from north towards east and not the
  mathematical angle \<open>atan2 (y, x)\<close>, in degrees, moved into \<open>[0, 360)\<close> by adding
  a turn to a negative angle, times 100 and cut to an integer, which is below 36000
  and fits the 16 bits of the field. North is 0, east 9000, south 18000 and west 27000.
  \<^verbatim>\<open>OnUpdate\<close> assigns it whenever it computes the message.
\<close>

theorem C9_course_over_ground:
  "course_over_ground v = \<lfloor>GetDegrees360 (atan2 (v_x v) (v_y v)) * 100\<rfloor>
   \<and> GetDegrees360 (atan2 (v_x v) (v_y v)) =
       (if atan2 (v_x v) (v_y v) < 0 then atan2 (v_x v) (v_y v) * 180 / pi + 360
        else atan2 (v_x v) (v_y v) * 180 / pi)
   \<and> 0 \<le> GetDegrees360 (atan2 (v_x v) (v_y v)) \<and> GetDegrees360 (atan2 (v_x v) (v_y v)) < 360
   \<and> 0 \<le> course_over_ground v \<and> course_over_ground v < 36000
   \<and> gps_cog (hil_gps_msg (fst (OnUpdate P w s))) =
       (if sim_time w - last_gps_time s > gps_update_interval - gps_delay
        then course_over_ground (linear_vel w) else gps_cog (hil_gps_msg s))
   \<and> course_over_ground \<lparr>v_x = 0, v_y = 1, v_z = 0\<rparr> = 0
   \<and> course_over_ground \<lparr>v_x = 1, v_y = 0, v_z = 0\<rparr> = 9000
   \<and> course_over_ground \<lparr>v_x = 0, v_y = - 1, v_z = 0\<rparr> = 18000
   \<and> course_over_ground \<lparr>v_x = - 1, v_y = 0, v_z = 0\<rparr> = 27000"
proof -
  have "GetDegrees360 (atan2 (v_x v) (v_y v)) =
       (if atan2 (v_x v) (v_y v) < 0 then atan2 (v_x v) (v_y v) * 180 / pi + 360
        else atan2 (v_x v) (v_y v) * 180 / pi)"
    using atan2_range [of "v_x v" "v_y v"]
    by (simp add: GetDegrees360_half_turn Degree_def)
  then show ?thesis
    using course_over_ground_eq [of v] GetDegrees360_range [of "atan2 (v_x v) (v_y v)"]
      course_over_ground_range [of v] OnUpdate_gps_cog [of P w s] course_over_ground_compass
    by simp
qed

subsection \<open>The GPS measurement\<close>

lemma handle_message_hil_gps_msg:
  "handle_message P now m (s\<lparr>hil_gps_msg := m0\<rparr>) = (handle_message P now m s)\<lparr>hil_gps_msg := m0\<rparr>"
  by (cases m) (simp_all add: Let_def)

lemma fold_handle_message_hil_gps_msg:
  "fold (handle_message P now) ms (s\<lparr>hil_gps_msg := m0\<rparr>) =
     (fold (handle_message P now) ms s)\<lparr>hil_gps_msg := m0\<rparr>"
  by (induction ms arbitrary: s) (simp_all add: handle_message_hil_gps_msg del: handle_message.simps)

lemma poll_hil_gps_msg:
  "pollForMAVLinkMessages P w (s\<lparr>hil_gps_msg := m0\<rparr>) =
     (pollForMAVLinkMessages P w s)\<lparr>hil_gps_msg := m0\<rparr>"
proof -
  have c: "s\<lparr>hil_gps_msg := m0, srcaddr := a\<rparr> = s\<lparr>srcaddr := a, hil_gps_msg := m0\<rparr>" for a
    by (cases s) simp
  show ?thesis
    by (simp add: pollForMAVLinkMessages_def Let_def c fold_handle_message_hil_gps_msg)
qed

lemma handle_control_hil_gps_msg:
  "fst (handle_control P w dt (s\<lparr>hil_gps_msg := m0\<rparr>)) =
     (fst (handle_control P w dt s))\<lparr>hil_gps_msg := m0\<rparr>"
  by (simp add: handle_control_def Let_def)

lemma before_gps_hil_gps_msg:
  "before_gps P w (s\<lparr>hil_gps_msg := m0\<rparr>) = (before_gps P w s)\<lparr>hil_gps_msg := m0\<rparr>"
  by (simp add: before_gps_def poll_hil_gps_msg handle_control_hil_gps_msg)

lemma gps_measure_overwrites:
  "sim_time w - last_gps_time t > gps_update_interval - gps_delay \<Longrightarrow>
   gps_measure P w (t\<lparr>hil_gps_msg := m0\<rparr>) = gps_measure P w t"
  by (simp add: gps_measure_def Let_def draw_def)

lemma OnUpdate_hil_gps_msg_fresh:
  "hil_gps_msg (fst (OnUpdate P w s)) =
     (if sim_time w - last_gps_time s > gps_update_interval - gps_delay
      then hil_gps_msg (fst (OnUpdate P w (s\<lparr>hil_gps_msg := m0\<rparr>)))
      else hil_gps_msg s)"
proof (cases "sim_time w - last_gps_time s > gps_update_interval - gps_delay")
  case True
  then have "sim_time w - last_gps_time (before_gps P w s) > gps_update_interval - gps_delay"
    by (simp add: before_gps_fields)
  then have "gps_measure P w ((before_gps P w s)\<lparr>hil_gps_msg := m0\<rparr>) = gps_measure P w (before_gps P w s)"
    by (rule gps_measure_overwrites)
  with True show ?thesis
    by (simp add: OnUpdate_hil_gps_msg before_gps_hil_gps_msg)
next
  case False
  then show ?thesis
    by (simp add: OnUpdate_hil_gps_msg gps_measure_def Let_def before_gps_fields)
qed

lemma OnUpdate_gps_time_usec:
  "gps_time_usec (hil_gps_msg (fst (OnUpdate P w s))) =
     (if sim_time w - last_gps_time s > gps_update_interval - gps_delay
      then trunc (sim_time w * 1000000) else gps_time_usec (hil_gps_msg s))"
  by (simp add: OnUpdate_hil_gps_msg gps_measure_def Let_def before_gps_fields)

lemma gps_measure_bias:
  "gps_bias_x (gps_measure P w t) =
     (if sim_time w - last_gps_time t > gps_update_interval - gps_delay
      then gps_bias_x t + (gps_random_walk P * draw w t 3 - gps_bias_x t / gps_corellation_time P)
      else gps_bias_x t)"
  "gps_bias_y (gps_measure P w t) =
     (if sim_time w - last_gps_time t > gps_update_interval - gps_delay
      then gps_bias_y t + (gps_random_walk P * draw w t 4 - gps_bias_y t / gps_corellation_time P)
      else gps_bias_y t)"
  "gps_bias_z (gps_measure P w t) =
     (if sim_time w - last_gps_time t > gps_update_interval - gps_delay
      then gps_bias_z t + (gps_random_walk P * draw w t 5 - gps_bias_z t / gps_corellation_time P)
      else gps_bias_z t)"
  by (simp_all add: gps_measure_def Let_def)

lemma OnUpdate_gps_bias:
  "gps_bias_x (fst (OnUpdate P w s)) =
     (if sim_time w - last_gps_time s > gps_update_interval - gps_delay
      then gps_bias_x s + (gps_random_walk P * draw w s 3 - gps_bias_x s / gps_corellation_time P)
      else gps_bias_x s)"
  "gps_bias_y (fst (OnUpdate P w s)) =
     (if sim_time w - last_gps_time s > gps_update_interval - gps_delay
      then gps_bias_y s + (gps_random_walk P * draw w s 4 - gps_bias_y s / gps_corellation_time P)
      else gps_bias_y s)"
  "gps_bias_z (fst (OnUpdate P w s)) =
     (if sim_time w - last_gps_time s > gps_update_interval - gps_delay
      then gps_bias_z s + (gps_random_walk P * draw w s 5 - gps_bias_z s / gps_corellation_time P)
      else gps_bias_z s)"
  by (simp_all add: OnUpdate_state vision_estimate_fields gps_send_fields gps_measure_bias
      before_gps_fields draw_before_gps)

lemma OnUpdate_distribution:
  "standard_normal_distribution (fst (OnUpdate P w s)) = standard_normal_distribution s"
  by (simp add: OnUpdate_state vision_estimate_def gps_send_def gps_measure_def Let_def
      before_gps_fields)

lemma OnUpdate_random_generator:
  "random_generator (fst (OnUpdate P w s)) =
     random_generator s
       + (if sim_time w - last_gps_time s > gps_update_interval - gps_delay then 6 else 0)
       + (if sim_time w - last_ev_time s > ev_update_interval then 6 else 0)"
  by (simp add: OnUpdate_state vision_estimate_def gps_send_def gps_measure_def Let_def
      before_gps_fields)


lemma run_step:
  "fst (run P (w # ws) s) = fst (run P ws (fst (OnUpdate P w s)))"
  "snd (run P (w # ws) s) = snd (OnUpdate P w s) # snd (run P ws (fst (OnUpdate P w s)))"
  by (simp_all add: Let_def)

lemma quiet_world_fields:
  "sim_time (quiet_world t p v z r) = t"
  "pose_pos (quiet_world t p v z r) = p"
  "linear_vel (quiet_world t p v z r) = v"
  "variates (quiet_world t p v z r) = z"
  by (simp_all add: quiet_world_def)

lemma gliding_fields:
  "sim_time (gliding t) = t" "variates (gliding t) = (\<lambda>k. 1)"
  by (simp_all add: gliding_def quiet_world_fields)

lemma three_steps_one_window:
  "gps_bias_x (fst (run example_params [gliding 0.1, gliding 0.15, gliding 0.19] example_plugin))
     = 2611 / 900
   \<and> map gps_sent (snd (run example_params [gliding 0.1, gliding 0.15, gliding 0.19]
        example_plugin)) = [None, None, None]"
proof -
  have l: "last_gps_time example_plugin = 0" "gps_bias_x example_plugin = 0"
    "standard_normal_distribution example_plugin = (0, 1)"
    by (simp_all add: example_plugin_def)
  have P: "gps_random_walk example_params = 1" "gps_corellation_time example_params = 30"
    by (simp_all add: example_params_def)
  show ?thesis
    by (simp add: run_step OnUpdate_gps_bias OnUpdate_last_gps_time OnUpdate_gps_sent
        OnUpdate_distribution draw_def gliding_fields l P gps_update_interval_def gps_delay_def
        del: run.simps(2))
qed

text \<open>
  What the two GPS blocks do in every step. When more than 0.08 s have passed since the
  last GPS message, six variates are drawn, each of the three biases is stepped once
  (\<open>bias + (random_walk * variate - bias / correlation_time)\<close>) and every field of the
  message is assigned anew: the message after the step does not depend on the message
  before it and carries the time of the step. In any other step the biases and the
  message stay. The first block is not latched, so the bias is stepped once per such
  step, several times within one window of 0.2 s: three steps at 0.1 s, 0.15 s and
  0.19 s send nothing and step the bias three times. A step that sends has run the
  first block just before, and sends the message of its own time.
\<close>

lemma gps_recomputed_every_step:
  "gps_bias_x (fst (OnUpdate P w s)) =
     (if sim_time w - last_gps_time s > 0.08
      then gps_bias_x s + (gps_random_walk P * draw w s 3 - gps_bias_x s / gps_corellation_time P)
      else gps_bias_x s)
   \<and> gps_bias_y (fst (OnUpdate P w s)) =
     (if sim_time w - last_gps_time s > 0.08
      then gps_bias_y s + (gps_random_walk P * draw w s 4 - gps_bias_y s / gps_corellation_time P)
      else gps_bias_y s)
   \<and> gps_bias_z (fst (OnUpdate P w s)) =
     (if sim_time w - last_gps_time s > 0.08
      then gps_bias_z s + (gps_random_walk P * draw w s 5 - gps_bias_z s / gps_corellation_time P)
      else gps_bias_z s)
   \<and> random_generator (fst (OnUpdate P w s)) =
       random_generator s + (if sim_time w - last_gps_time s > 0.08 then 6 else 0)
         + (if sim_time w - last_ev_time s > 0.05 then 6 else 0)
   \<and> hil_gps_msg (fst (OnUpdate P w s)) =
       (if sim_time w - last_gps_time s > 0.08
        then hil_gps_msg (fst (OnUpdate P w (s\<lparr>hil_gps_msg := m0\<rparr>)))
        else hil_gps_msg s)
   \<and> gps_time_usec (hil_gps_msg (fst (OnUpdate P w s))) =
       (if sim_time w - last_gps_time s > 0.08
        then trunc (sim_time w * 1000000) else gps_time_usec (hil_gps_msg s))
   \<and> gps_sent (snd (OnUpdate P w s)) =
       (if sim_time w - last_gps_time s > 0.2
        then Some (hil_gps_msg (fst (OnUpdate P w s))) else None)
   \<and> gps_bias_x (fst (run example_params [gliding 0.1, gliding 0.15, gliding 0.19]
        example_plugin)) = 2611 / 900
   \<and> map gps_sent (snd (run example_params [gliding 0.1, gliding 0.15, gliding 0.19]
        example_plugin)) = [None, None, None]"
proof -
  have d: "gps_update_interval - gps_delay = 0.08" "gps_update_interval = 0.2"
    "ev_update_interval = 0.05"
    by (simp_all add: gps_update_interval_def gps_delay_def ev_update_interval_def)
  show ?thesis
    using OnUpdate_gps_bias [of P w s, unfolded d(1)]
      OnUpdate_random_generator [of P w s, unfolded d(1) d(3)]
      OnUpdate_hil_gps_msg_fresh [of P w s m0, unfolded d(1)]
      OnUpdate_gps_time_usec [of P w s, unfolded d(1)]
      OnUpdate_gps_sent [of P w s, unfolded d(2)] three_steps_one_window
    by (intro conjI) simp_all
qed


subsection \<open>Sensor values without noise\<close>

lemma OnUpdate_ev_out:
  "ev_sent (snd (OnUpdate P w s)) =
     snd (vision_estimate P w (sim_time w - last_time s)
            (fst (gps_send w (gps_measure P w (before_gps P w s)))))"
  by (simp add: OnUpdate_def Let_def before_gps_def)

lemma gps_blocks_ev_fields:
  "last_ev_time (fst (gps_send w (gps_measure P w t))) = last_ev_time t"
  "ev_bias_x (fst (gps_send w (gps_measure P w t))) = ev_bias_x t"
  "ev_bias_y (fst (gps_send w (gps_measure P w t))) = ev_bias_y t"
  "ev_bias_z (fst (gps_send w (gps_measure P w t))) = ev_bias_z t"
  "standard_normal_distribution (fst (gps_send w (gps_measure P w t))) = standard_normal_distribution t"
  by (simp_all add: gps_send_def gps_measure_def Let_def)

lemma OnUpdate_gps_position:
  "sim_time w - last_gps_time s > gps_update_interval - gps_delay \<Longrightarrow>
   gps_lat (hil_gps_msg (fst (OnUpdate P w s))) =
     trunc ((lat_rad (fst (OnUpdate P w s)) * 180 / pi
             + (gps_noise_density P * sqrt (sim_time w - last_gps_time s) * draw w s 0
                + gps_bias_x (fst (OnUpdate P w s))) * 0.00001) * 10000000)
   \<and> gps_lon (hil_gps_msg (fst (OnUpdate P w s))) =
     trunc ((lon_rad (fst (OnUpdate P w s)) * 180 / pi
             + (gps_noise_density P * sqrt (sim_time w - last_gps_time s) * draw w s 1
                + gps_bias_y (fst (OnUpdate P w s))) * 0.00001) * 10000000)
   \<and> gps_alt (hil_gps_msg (fst (OnUpdate P w s))) =
     trunc ((v_z (pose_pos w) + alt_home P) * 1000
             + gps_noise_density P * sqrt (sim_time w - last_gps_time s) * draw w s 2
             + gps_bias_z (fst (OnUpdate P w s)))"
  by (simp add: OnUpdate_gps_bias OnUpdate_lat_lon OnUpdate_hil_gps_msg gps_measure_def Let_def
      before_gps_fields draw_before_gps)

lemma OnUpdate_ev_bias:
  "ev_bias_x (fst (OnUpdate P w s)) =
     (if sim_time w - last_ev_time s > ev_update_interval
      then ev_bias_x s + (ev_random_walk P * sqrt (sim_time w - last_ev_time s)
                            * draw w (gps_measure P w (before_gps P w s)) 3
                            * (sim_time w - last_time s)
                          - ev_bias_x s / ev_corellation_time P)
      else ev_bias_x s)"
  "ev_bias_y (fst (OnUpdate P w s)) =
     (if sim_time w - last_ev_time s > ev_update_interval
      then ev_bias_y s + (ev_random_walk P * sqrt (sim_time w - last_ev_time s)
                            * draw w (gps_measure P w (before_gps P w s)) 4
                            * (sim_time w - last_time s)
                          - ev_bias_y s / ev_corellation_time P)
      else ev_bias_y s)"
  "ev_bias_z (fst (OnUpdate P w s)) =
     (if sim_time w - last_ev_time s > ev_update_interval
      then ev_bias_z s + (ev_random_walk P * sqrt (sim_time w - last_ev_time s)
                            * draw w (gps_measure P w (before_gps P w s)) 5
                            * (sim_time w - last_time s)
                          - ev_bias_z s / ev_corellation_time P)
      else ev_bias_z s)"
  by (simp_all add: OnUpdate_state vision_estimate_def gps_send_def gps_measure_def Let_def
      before_gps_fields draw_def)

lemma OnUpdate_ev_sent:
  "ev_sent (snd (OnUpdate P w s)) =
     (if sim_time w - last_ev_time s > ev_update_interval
      then Some \<lparr>vp_usec = trunc (sim_time w * 1000000),
                 vp_x = v_y (pose_pos w)
                        + ev_noise_density P * sqrt (sim_time w - last_ev_time s)
                          * draw w (gps_measure P w (before_gps P w s)) 1
                        + ev_bias_y (fst (OnUpdate P w s)),
                 vp_y = v_x (pose_pos w)
                        + ev_noise_density P * sqrt (sim_time w - last_ev_time s)
                          * draw w (gps_measure P w (before_gps P w s)) 0
                        + ev_bias_x (fst (OnUpdate P w s)),
                 vp_z = - v_z (pose_pos w)
                        + ev_noise_density P * sqrt (sim_time w - last_ev_time s)
                          * draw w (gps_measure P w (before_gps P w s)) 2
                        + ev_bias_z (fst (OnUpdate P w s)),
                 vp_roll = pose_roll w, vp_pitch = - pose_pitch w,
                 vp_yaw = - pose_yaw w + pi / 2\<rparr>
      else None)"
  by (simp add: OnUpdate_ev_out OnUpdate_ev_bias)
     (simp add: vision_estimate_def gps_send_def gps_measure_def Let_def before_gps_fields draw_def)


lemma ImuCallback_mag:
  "map_option (\<lambda>r. sensor_xmag (fst (snd r))) (ImuCallback lib P w imu s) =
     map_option (\<lambda>r. sensor_xmag (fst (snd r)) + 0.01 * variates w (random_generator s))
       (ImuCallback lib P (w\<lparr>variates := \<lambda>k. 0\<rparr>) imu s)"
  "map_option (\<lambda>r. sensor_ymag (fst (snd r))) (ImuCallback lib P w imu s) =
     map_option (\<lambda>r. sensor_ymag (fst (snd r)) + 0.01 * variates w (random_generator s + 1))
       (ImuCallback lib P (w\<lparr>variates := \<lambda>k. 0\<rparr>) imu s)"
  "map_option (\<lambda>r. sensor_zmag (fst (snd r))) (ImuCallback lib P w imu s) =
     map_option (\<lambda>r. sensor_zmag (fst (snd r)) + 0.01 * variates w (random_generator s + 2))
       (ImuCallback lib P (w\<lparr>variates := \<lambda>k. 0\<rparr>) imu s)"
  by (simp_all add: ImuCallback_def Let_def draw_def vec_add_def split: option.split)

lemma uniform_pair_half:
  "uniform_pair (\<lambda>k. 1073741823) 2147483647 k = Some (1073741823 / 2147483647, 1073741823 / 2147483647, k + 2)"
  by (subst uniform_pair.simps) (simp add: Let_def FLT_EPSILON_def)

text \<open>
  C5, as amended. When the noise density and the random walk coefficient of the GPS and
  of the vision estimate are zero and their biases are zero before a step, the biases
  are zero after it, the latitude, longitude and altitude of a GPS message computed in
  the step are the projected position and the altitude of the model with nothing
  added, and the vision estimate sent is the position of the model. The magnetometer
  is not covered: whatever the coefficients, each component of the field sent is the
  component without noise plus 0.01 times a variate.
\<close>

theorem C5_zero_coefficients:
  assumes "gps_noise_density P = 0" and "gps_random_walk P = 0"
    and "gps_bias_x s = 0" and "gps_bias_y s = 0" and "gps_bias_z s = 0"
    and "ev_noise_density P = 0" and "ev_random_walk P = 0"
    and "ev_bias_x s = 0" and "ev_bias_y s = 0" and "ev_bias_z s = 0"
  shows "gps_bias_x (fst (OnUpdate P w s)) = 0 \<and> gps_bias_y (fst (OnUpdate P w s)) = 0
     \<and> gps_bias_z (fst (OnUpdate P w s)) = 0
     \<and> ev_bias_x (fst (OnUpdate P w s)) = 0 \<and> ev_bias_y (fst (OnUpdate P w s)) = 0
     \<and> ev_bias_z (fst (OnUpdate P w s)) = 0
     \<and> (if sim_time w - last_gps_time s > 0.08
         then gps_lat (hil_gps_msg (fst (OnUpdate P w s)))
                = trunc (lat_rad (fst (OnUpdate P w s)) * 180 / pi * 10000000)
            \<and> gps_lon (hil_gps_msg (fst (OnUpdate P w s)))
                = trunc (lon_rad (fst (OnUpdate P w s)) * 180 / pi * 10000000)
            \<and> gps_alt (hil_gps_msg (fst (OnUpdate P w s)))
                = trunc ((v_z (pose_pos w) + alt_home P) * 1000)
         else hil_gps_msg (fst (OnUpdate P w s)) = hil_gps_msg s)
     \<and> ev_sent (snd (OnUpdate P w s)) =
         (if sim_time w - last_ev_time s > 0.05
          then Some \<lparr>vp_usec = trunc (sim_time w * 1000000),
                     vp_x = v_y (pose_pos w), vp_y = v_x (pose_pos w),
                     vp_z = - v_z (pose_pos w),
                     vp_roll = pose_roll w, vp_pitch = - pose_pitch w,
                     vp_yaw = - pose_yaw w + pi / 2\<rparr>
          else None)
     \<and> map_option (\<lambda>r. sensor_xmag (fst (snd r))) (ImuCallback lib P w imu s) =
         map_option (\<lambda>r. sensor_xmag (fst (snd r)) + 0.01 * variates w (random_generator s))
           (ImuCallback lib P (w\<lparr>variates := \<lambda>k. 0\<rparr>) imu s)
     \<and> map_option (\<lambda>r. sensor_ymag (fst (snd r))) (ImuCallback lib P w imu s) =
         map_option (\<lambda>r. sensor_ymag (fst (snd r)) + 0.01 * variates w (random_generator s + 1))
           (ImuCallback lib P (w\<lparr>variates := \<lambda>k. 0\<rparr>) imu s)
     \<and> map_option (\<lambda>r. sensor_zmag (fst (snd r))) (ImuCallback lib P w imu s) =
         map_option (\<lambda>r. sensor_zmag (fst (snd r)) + 0.01 * variates w (random_generator s + 2))
           (ImuCallback lib P (w\<lparr>variates := \<lambda>k. 0\<rparr>) imu s)"
proof -
  have d: "gps_update_interval - gps_delay = 0.08" "ev_update_interval = 0.05"
    by (simp_all add: gps_update_interval_def gps_delay_def ev_update_interval_def)
  have gb: "gps_bias_x (fst (OnUpdate P w s)) = 0" "gps_bias_y (fst (OnUpdate P w s)) = 0"
    "gps_bias_z (fst (OnUpdate P w s)) = 0"
    using assms(2-5) by (simp_all add: OnUpdate_gps_bias)
  have eb: "ev_bias_x (fst (OnUpdate P w s)) = 0" "ev_bias_y (fst (OnUpdate P w s)) = 0"
    "ev_bias_z (fst (OnUpdate P w s)) = 0"
    using assms(7-10) by (simp_all add: OnUpdate_ev_bias)
  have g: "if sim_time w - last_gps_time s > 0.08
         then gps_lat (hil_gps_msg (fst (OnUpdate P w s)))
                = trunc (lat_rad (fst (OnUpdate P w s)) * 180 / pi * 10000000)
            \<and> gps_lon (hil_gps_msg (fst (OnUpdate P w s)))
                = trunc (lon_rad (fst (OnUpdate P w s)) * 180 / pi * 10000000)
            \<and> gps_alt (hil_gps_msg (fst (OnUpdate P w s)))
                = trunc ((v_z (pose_pos w) + alt_home P) * 1000)
         else hil_gps_msg (fst (OnUpdate P w s)) = hil_gps_msg s"
  proof (cases "sim_time w - last_gps_time s > 0.08")
    case True
    then have "sim_time w - last_gps_time s > gps_update_interval - gps_delay"
      by (simp add: d)
    from OnUpdate_gps_position [OF this, of P] True show ?thesis
      by (simp add: gb assms(1))
  next
    case False
    then show ?thesis
      using OnUpdate_hil_gps_msg_fresh [of P w s "hil_gps_msg s", unfolded d(1)] by simp
  qed
  have e: "ev_sent (snd (OnUpdate P w s)) =
         (if sim_time w - last_ev_time s > 0.05
          then Some \<lparr>vp_usec = trunc (sim_time w * 1000000),
                     vp_x = v_y (pose_pos w), vp_y = v_x (pose_pos w),
                     vp_z = - v_z (pose_pos w),
                     vp_roll = pose_roll w, vp_pitch = - pose_pitch w,
                     vp_yaw = - pose_yaw w + pi / 2\<rparr>
          else None)"
    by (simp add: OnUpdate_ev_sent eb assms(6) d(2))
  show ?thesis
    by (intro conjI) (fact gb eb g e ImuCallback_mag)+
qed

lemma silent_params_fields: "gps_noise_density silent_params = 0" "gps_random_walk silent_params = 0"
    "ev_noise_density silent_params = 0" "ev_random_walk silent_params = 0"
    "alt_home silent_params = 488" "lat_home silent_params = 47.397742 * pi / 180"
    by (simp_all add: silent_params_def example_params_def)

lemma example_plugin_fields: "gps_bias_x example_plugin = 0" "gps_bias_y example_plugin = 0"
    "gps_bias_z example_plugin = 0" "ev_bias_x example_plugin = 0"
    "ev_bias_y example_plugin = 0" "ev_bias_z example_plugin = 0"
    "last_gps_time example_plugin = 0" "last_ev_time example_plugin = 0"
    by (simp_all add: example_plugin_def)

lemma gliding_tenth: "sim_time (gliding 0.1) = 0.1" "pose_pos (gliding 0.1) = \<lparr>v_x = 0, v_y = 0, v_z = 1\<rparr>"
    "pose_roll (gliding 0.1) = 0" "pose_pitch (gliding 0.1) = 0" "pose_yaw (gliding 0.1) = 0"
    by (simp_all add: gliding_def quiet_world_def)

lemma lat_rad_gliding: "lat_rad (fst (OnUpdate silent_params (gliding 0.1) example_plugin))
               = 47.397742 * pi / 180"
    by (simp add: OnUpdate_lat_lon reproject_home gliding_tenth silent_params_fields)

lemma trunc_examples: "trunc 473977420 = 473977420" "trunc 489000 = 489000" "trunc 100000 = 100000"
    by (simp_all add: trunc_def)


lemma rand_gliding: "rand_values (gliding 0.1) = (\<lambda>k. 1073741823)"
    "rand_values ((gliding 0.1)\<lparr>variates := \<lambda>k. 0\<rparr>) = (\<lambda>k. 1073741823)"
    "RAND_MAX example_library = 2147483647"
    by (simp_all add: gliding_def quiet_world_def example_library_def)

lemma ImuCallback_xmag:
  "uniform_pair (rand_values w) (RAND_MAX lib) (rand_calls s) = Some u \<Longrightarrow>
   map_option (\<lambda>r. sensor_xmag (fst (snd r))) (ImuCallback lib P w imu s) =
     Some (v_x (RotateVectorReverse lib
                  (quat_mul lib \<lparr>q_w = 0, q_x = 0.70711, q_y = 0.70711, q_z = 0\<rparr>
                     (quat_mul lib (imu_orientation imu)
                        (GetInverse lib \<lparr>q_w = 0, q_x = 1, q_y = 0, q_z = 0\<rparr>)))
                  (RotateVectorReverse lib
                     (Quaternion_euler lib 0 0 (get_mag_declination lib (lat_rad s) (lon_rad s)))
                     mag_d))
           + 0.01 * variates w (random_generator s))"
  by (simp add: ImuCallback_def Let_def draw_def vec_add_def)

lemma example_rotation: "RotateVectorReverse example_library q v = v"
  by (simp add: example_library_def)

lemma variates_gliding: "variates (gliding t) = (\<lambda>k. 1)" "variates ((gliding t)\<lparr>variates := \<lambda>k. 0\<rparr>) = (\<lambda>k. 0)"
  by (simp_all add: gliding_def quiet_world_def)

lemma xmag_with_noise: "map_option (\<lambda>r. sensor_xmag (fst (snd r)))
        (ImuCallback example_library silent_params (gliding 0.1) example_imu example_plugin)
       = Some 0.22523"
proof -
  have "uniform_pair (rand_values (gliding 0.1)) (RAND_MAX example_library)
          (rand_calls example_plugin)
        = Some (1073741823 / 2147483647, 1073741823 / 2147483647, rand_calls example_plugin + 2)"
    unfolding rand_gliding by (rule uniform_pair_half)
  from ImuCallback_xmag [OF this] show ?thesis
    by (simp add: example_rotation variates_gliding mag_d_def)
qed

lemma xmag_without_noise: "map_option (\<lambda>r. sensor_xmag (fst (snd r)))
        (ImuCallback example_library silent_params ((gliding 0.1)\<lparr>variates := \<lambda>k. 0\<rparr>)
           example_imu example_plugin)
       = Some 0.21523"
proof -
  have "uniform_pair (rand_values ((gliding 0.1)\<lparr>variates := \<lambda>k. 0\<rparr>)) (RAND_MAX example_library)
          (rand_calls example_plugin)
        = Some (1073741823 / 2147483647, 1073741823 / 2147483647, rand_calls example_plugin + 2)"
    unfolding rand_gliding by (rule uniform_pair_half)
  from ImuCallback_xmag [OF this] show ?thesis
    by (simp add: example_rotation variates_gliding mag_d_def)
qed

theorem C5_zero_coefficients_witness:
  "gps_noise_density silent_params = 0 \<and> gps_random_walk silent_params = 0
   \<and> gps_bias_x example_plugin = 0 \<and> gps_bias_y example_plugin = 0
   \<and> gps_bias_z example_plugin = 0
   \<and> ev_noise_density silent_params = 0 \<and> ev_random_walk silent_params = 0
   \<and> ev_bias_x example_plugin = 0 \<and> ev_bias_y example_plugin = 0
   \<and> ev_bias_z example_plugin = 0
   \<and> gps_bias_x (fst (OnUpdate silent_params (gliding 0.1) example_plugin)) = 0
   \<and> gps_alt (hil_gps_msg (fst (OnUpdate silent_params (gliding 0.1) example_plugin))) = 489000
   \<and> gps_lat (hil_gps_msg (fst (OnUpdate silent_params (gliding 0.1) example_plugin)))
       = 473977420
   \<and> ev_sent (snd (OnUpdate silent_params (gliding 0.1) example_plugin)) =
       Some \<lparr>vp_usec = 100000, vp_x = 0, vp_y = 0, vp_z = - 1,
              vp_roll = 0, vp_pitch = 0, vp_yaw = pi / 2\<rparr>"
proof -
  note th = C5_zero_coefficients [OF silent_params_fields(1,2) example_plugin_fields(1-3)
      silent_params_fields(3,4) example_plugin_fields(4-6), of "gliding 0.1"
      example_library example_imu]
  have b: "gps_bias_x (fst (OnUpdate silent_params (gliding 0.1) example_plugin)) = 0"
    using th by (rule conjunct1)
  have g: "if sim_time (gliding 0.1) - last_gps_time example_plugin > 0.08
         then gps_lat (hil_gps_msg (fst (OnUpdate silent_params (gliding 0.1) example_plugin)))
                = trunc (lat_rad (fst (OnUpdate silent_params (gliding 0.1) example_plugin))
                         * 180 / pi * 10000000)
            \<and> gps_lon (hil_gps_msg (fst (OnUpdate silent_params (gliding 0.1) example_plugin)))
                = trunc (lon_rad (fst (OnUpdate silent_params (gliding 0.1) example_plugin))
                         * 180 / pi * 10000000)
            \<and> gps_alt (hil_gps_msg (fst (OnUpdate silent_params (gliding 0.1) example_plugin)))
                = trunc ((v_z (pose_pos (gliding 0.1)) + alt_home silent_params) * 1000)
         else hil_gps_msg (fst (OnUpdate silent_params (gliding 0.1) example_plugin))
                = hil_gps_msg example_plugin"
    using th [THEN conjunct2, THEN conjunct2, THEN conjunct2, THEN conjunct2, THEN conjunct2,
        THEN conjunct2] by (rule conjunct1)
  have e: "ev_sent (snd (OnUpdate silent_params (gliding 0.1) example_plugin)) =
         (if sim_time (gliding 0.1) - last_ev_time example_plugin > 0.05
          then Some \<lparr>vp_usec = trunc (sim_time (gliding 0.1) * 1000000),
                     vp_x = v_y (pose_pos (gliding 0.1)), vp_y = v_x (pose_pos (gliding 0.1)),
                     vp_z = - v_z (pose_pos (gliding 0.1)),
                     vp_roll = pose_roll (gliding 0.1), vp_pitch = - pose_pitch (gliding 0.1),
                     vp_yaw = - pose_yaw (gliding 0.1) + pi / 2\<rparr>
          else None)"
    using th [THEN conjunct2, THEN conjunct2, THEN conjunct2, THEN conjunct2, THEN conjunct2,
        THEN conjunct2, THEN conjunct2] by (rule conjunct1)
  have alt: "gps_alt (hil_gps_msg (fst (OnUpdate silent_params (gliding 0.1) example_plugin)))
      = 489000"
    using g by (simp add: gliding_tenth example_plugin_fields silent_params_fields trunc_examples)
  have lt: "gps_lat (hil_gps_msg (fst (OnUpdate silent_params (gliding 0.1) example_plugin)))
       = 473977420"
    using g by (simp add: gliding_tenth example_plugin_fields lat_rad_gliding trunc_examples)
  have ev: "ev_sent (snd (OnUpdate silent_params (gliding 0.1) example_plugin)) =
       Some \<lparr>vp_usec = 100000, vp_x = 0, vp_y = 0, vp_z = - 1,
              vp_roll = 0, vp_pitch = 0, vp_yaw = pi / 2\<rparr>"
    unfolding e by (simp add: gliding_tenth example_plugin_fields trunc_examples)
  show ?thesis
    by (intro conjI) (fact silent_params_fields example_plugin_fields b alt lt ev)+
qed

text \<open>
  C5, as stated, has every sensor value equal the ground truth once the noise densities
  and random walk coefficients are zero and the biases start at zero. With all of them
  zero the magnetometer field sent is 0.22523 where the field without noise is 0.21523:
  \<^verbatim>\<open>ImuCallback\<close> adds a variate of standard deviation 0.01 that no coefficient
  scales.
\<close>

theorem C5_magnetometer_noise:
  "gps_noise_density silent_params = 0 \<and> gps_random_walk silent_params = 0
   \<and> ev_noise_density silent_params = 0 \<and> ev_random_walk silent_params = 0
   \<and> gps_bias_x example_plugin = 0 \<and> gps_bias_y example_plugin = 0
   \<and> gps_bias_z example_plugin = 0
   \<and> ev_bias_x example_plugin = 0 \<and> ev_bias_y example_plugin = 0
   \<and> ev_bias_z example_plugin = 0
   \<and> map_option (\<lambda>r. sensor_xmag (fst (snd r)))
        (ImuCallback example_library silent_params (gliding 0.1) example_imu example_plugin)
       = Some 0.22523
   \<and> map_option (\<lambda>r. sensor_xmag (fst (snd r)))
        (ImuCallback example_library silent_params ((gliding 0.1)\<lparr>variates := \<lambda>k. 0\<rparr>)
           example_imu example_plugin)
       = Some 0.21523"
  by (intro conjI)
     (fact silent_params_fields example_plugin_fields xmag_with_noise xmag_without_noise)+

subsection \<open>The barometric altitude\<close>

lemma uniform_pair_accepts:
  assumes "FLT_EPSILON < real (rand (k + 2 * j)) * (1 / real rand_max)"
  shows "\<exists>i\<le>j. uniform_pair rand rand_max k =
           Some (real (rand (k + 2 * i)) * (1 / real rand_max),
                 real (rand (k + 2 * i + 1)) * (1 / real rand_max), k + 2 * i + 2)
         \<and> FLT_EPSILON < real (rand (k + 2 * i)) * (1 / real rand_max)
         \<and> (\<forall>l<i. real (rand (k + 2 * l)) * (1 / real rand_max) \<le> FLT_EPSILON)"
  using assms
proof (induction j arbitrary: k)
  case 0
  then show ?case
    by (subst uniform_pair.simps) (auto simp: Let_def)
next
  case (Suc j)
  show ?case
  proof (cases "real (rand k) * (1 / real rand_max) \<le> FLT_EPSILON")
    case False
    then have "uniform_pair rand rand_max k =
           Some (real (rand (k + 2 * 0)) * (1 / real rand_max),
                 real (rand (k + 2 * 0 + 1)) * (1 / real rand_max), k + 2 * 0 + 2)
         \<and> FLT_EPSILON < real (rand (k + 2 * 0)) * (1 / real rand_max)
         \<and> (\<forall>l<0. real (rand (k + 2 * l)) * (1 / real rand_max) \<le> FLT_EPSILON)"
      by (subst uniform_pair.simps) (simp add: Let_def)
    then show ?thesis by blast
  next
    case True
    have "FLT_EPSILON < real (rand ((k + 2) + 2 * j)) * (1 / real rand_max)"
      using Suc.prems by (simp add: add.commute add.left_commute)
    from Suc.IH [OF this] obtain i where i: "i \<le> j"
      "uniform_pair rand rand_max (k + 2) =
           Some (real (rand (k + 2 + 2 * i)) * (1 / real rand_max),
                 real (rand (k + 2 + 2 * i + 1)) * (1 / real rand_max), k + 2 + 2 * i + 2)"
      "FLT_EPSILON < real (rand (k + 2 + 2 * i)) * (1 / real rand_max)"
      "\<forall>l<i. real (rand (k + 2 + 2 * l)) * (1 / real rand_max) \<le> FLT_EPSILON"
      by blast
    have step: "uniform_pair rand rand_max k = uniform_pair rand rand_max (k + 2)"
      using True by (subst uniform_pair.simps) (simp add: Let_def)
    have idx: "k + 2 + 2 * l = k + 2 * Suc l" for l by simp
    have low: "\<forall>l<Suc i. real (rand (k + 2 * l)) * (1 / real rand_max) \<le> FLT_EPSILON"
    proof (intro allI impI)
      fix l assume "l < Suc i"
      show "real (rand (k + 2 * l)) * (1 / real rand_max) \<le> FLT_EPSILON"
      proof (cases l)
        case 0
        then show ?thesis using True by simp
      next
        case (Suc l')
        then have "l' < i" using \<open>l < Suc i\<close> by simp
        then show ?thesis using i(4) Suc by (simp add: idx)
      qed
    qed
    show ?thesis
      apply (rule exI [of _ "Suc i"])
      using i(1,2,3) low step by (simp add: idx)
  qed
qed

lemma FLT_EPSILON_pos: "0 < FLT_EPSILON"
  by (simp add: FLT_EPSILON_def)

lemma uniform_le_one:
  assumes "r \<le> rand_max" and "0 < rand_max"
  shows "real r * (1 / real rand_max) \<le> 1"
  using assms by (simp add: field_simps)

lemma normal_sample_finite:
  assumes "FLT_EPSILON < p1" and "p1 \<le> 1"
  shows "normal_sample p1 p2 = Finite (sqrt (- 2 * ln p1) * cos (2 * pi * p2))
         \<and> \<bar>sqrt (- 2 * ln p1) * cos (2 * pi * p2)\<bar> \<le> 4096"
proof -
  have pos: "0 < p1" using assms(1) FLT_EPSILON_pos by linarith
  then have l: "ln p1 \<le> 0" using assms(2) by simp
  then have nn: "0 \<le> - 2 * ln p1" by simp
  have n: "normal_sample p1 p2 = Finite (sqrt (- 2 * ln p1) * cos (2 * pi * p2))"
    using pos nn by (simp add: normal_sample_def)
  have "ln (1 / p1) \<le> 1 / p1 - 1"
    using pos by (intro ln_le_minus_one) simp
  then have "- ln p1 \<le> 1 / p1 - 1"
    using pos by (simp add: ln_div)
  moreover have "1 / p1 < 2 ^ 23"
    using assms(1) pos by (simp add: FLT_EPSILON_def field_simps)
  ultimately have "- 2 * ln p1 \<le> 4096\<^sup>2" by simp
  then have "sqrt (- 2 * ln p1) \<le> sqrt (4096\<^sup>2)"
    by (rule real_sqrt_le_mono)
  then have s: "sqrt (- 2 * ln p1) \<le> 4096" by simp
  have "\<bar>sqrt (- 2 * ln p1) * cos (2 * pi * p2)\<bar> = sqrt (- 2 * ln p1) * \<bar>cos (2 * pi * p2)\<bar>"
    using nn by (simp add: abs_mult)
  also have "\<dots> \<le> sqrt (- 2 * ln p1) * 1"
    using nn by (intro mult_left_mono) simp_all
  finally have "\<bar>sqrt (- 2 * ln p1) * cos (2 * pi * p2)\<bar> \<le> 4096"
    using s by simp
  with n show ?thesis by simp
qed

lemma sqrt_variance: "0 \<le> sqrt (0.006::real)" "sqrt (0.006::real) \<le> 1"
proof -
  show "0 \<le> sqrt (0.006::real)" by simp
  have "sqrt (0.006::real) \<le> sqrt 1" by (rule real_sqrt_le_mono) simp
  then show "sqrt (0.006::real) \<le> 1" by simp
qed

lemma pressure_alt_cases:
  "pressure_alt z p1 p2 =
     (if isfinite (perturbed_alt z p1 p2) then perturbed_alt z p1 p2 else to_float (fp_neg z))"
proof (cases "perturbed_alt z p1 p2")
  case NonFinite
  then show ?thesis by (simp add: pressure_alt_def Let_def)
next
  case (Finite a)
  then have "to_float (fp_add (fp_neg z) (fp_mul (normal_sample p1 p2) (sqrtf (Finite 0.006))))
               = Finite a"
    by (simp add: perturbed_alt_def)
  then have "to_float (Finite a) = Finite a"
    by (cases "fp_add (fp_neg z) (fp_mul (normal_sample p1 p2) (sqrtf (Finite 0.006)))")
       (auto split: if_splits)
  with Finite show ?thesis by (simp add: pressure_alt_def Let_def del: to_float.simps)
qed

lemma pressure_alt_nonfinite: "\<not> isfinite z \<Longrightarrow> pressure_alt z p1 p2 = NonFinite"
  by (cases z) (simp_all add: pressure_alt_cases perturbed_alt_def)

lemma pressure_alt_finite_or:
  "isfinite (pressure_alt z p1 p2) \<or> to_float (fp_neg z) = NonFinite"
  by (cases "to_float (fp_neg z)") (simp_all add: pressure_alt_cases)

lemma pressure_alt_in_range:
  assumes "normal_sample p1 p2 = Finite n" and "\<bar>n\<bar> \<le> 4096" and "\<bar>a\<bar> + 4096 \<le> FLT_MAX"
  shows "pressure_alt (Finite a) p1 p2 = Finite (- a + n * sqrt 0.006)"
proof -
  have "\<bar>n * sqrt 0.006\<bar> \<le> 4096 * 1"
    unfolding abs_mult using assms(2) sqrt_variance
    by (intro mult_mono) simp_all
  then have "\<bar>- a + n * sqrt 0.006\<bar> \<le> FLT_MAX"
    using assms(3) by linarith
  then have "perturbed_alt (Finite a) p1 p2 = Finite (- a + n * sqrt 0.006)"
    by (simp add: perturbed_alt_def assms(1))
  then show ?thesis by (simp add: pressure_alt_cases)
qed


lemma ImuCallback_pressure_alt:
  "ImuCallback lib P w imu s =
     map_option (\<lambda>u. the (ImuCallback lib P w imu s))
       (uniform_pair (rand_values w) (RAND_MAX lib) (rand_calls s))"
  "uniform_pair (rand_values w) (RAND_MAX lib) (rand_calls s) = Some (p1, p2, k') \<Longrightarrow>
   map_option (\<lambda>r. sensor_pressure_alt (fst (snd r))) (ImuCallback lib P w imu s) =
     Some (pressure_alt
             (Finite (v_z (RotateVector lib \<lparr>q_w = 0, q_x = 0.70711, q_y = 0.70711, q_z = 0\<rparr>
                             (pose_pos w)))) p1 p2)"
  by (simp_all add: ImuCallback_def Let_def split: option.split)

text \<open>
  C8, as amended. If some first sample of the loop is above \<^verbatim>\<open>FLT_EPSILON\<close> (and
  \<^verbatim>\<open>rand()\<close> stays within \<^verbatim>\<open>RAND_MAX\<close>), the loop ends with the first such pair of
  samples, every pair before it having been drawn again; the normal sample is then
  finite, at most 4096 in size. The field \<^verbatim>\<open>pressure_alt\<close> of the sensor message is
  the perturbed altitude when that is finite and the unperturbed altitude
  \<^verbatim>\<open>-pos_n.z\<close> otherwise. That fallback is not tested: for an altitude within the
  range of a \<^verbatim>\<open>float\<close> (less 4096) the field is the finite perturbed altitude, but
  when \<^verbatim>\<open>pos_n.z\<close> is itself not finite the field is not finite, and the field is
  finite unless the unperturbed altitude is no finite \<^verbatim>\<open>float\<close>.
\<close>

theorem C8_pressure_altitude:
  assumes "FLT_EPSILON < real (rand_values w (rand_calls s + 2 * j)) * (1 / real (RAND_MAX lib))"
    and "\<forall>i. rand_values w i \<le> RAND_MAX lib" and "0 < RAND_MAX lib"
  shows "\<exists>i\<le>j. \<exists>p1 p2 n.
           uniform_pair (rand_values w) (RAND_MAX lib) (rand_calls s)
             = Some (p1, p2, rand_calls s + 2 * i + 2)
         \<and> p1 = real (rand_values w (rand_calls s + 2 * i)) * (1 / real (RAND_MAX lib))
         \<and> p2 = real (rand_values w (rand_calls s + 2 * i + 1)) * (1 / real (RAND_MAX lib))
         \<and> FLT_EPSILON < p1
         \<and> (\<forall>l<i. real (rand_values w (rand_calls s + 2 * l)) * (1 / real (RAND_MAX lib))
                    \<le> FLT_EPSILON)
         \<and> normal_sample p1 p2 = Finite n \<and> \<bar>n\<bar> \<le> 4096
         \<and> map_option (\<lambda>r. sensor_pressure_alt (fst (snd r))) (ImuCallback lib P w imu s) =
             Some (pressure_alt
                     (Finite (v_z (RotateVector lib
                                     \<lparr>q_w = 0, q_x = 0.70711, q_y = 0.70711, q_z = 0\<rparr>
                                     (pose_pos w)))) p1 p2)
         \<and> pressure_alt z p1 p2 =
             (if isfinite (perturbed_alt z p1 p2) then perturbed_alt z p1 p2
              else to_float (fp_neg z))
         \<and> (\<forall>a. z = Finite a \<and> \<bar>a\<bar> + 4096 \<le> FLT_MAX \<longrightarrow>
                  pressure_alt z p1 p2 = Finite (- a + n * sqrt 0.006))
         \<and> (\<not> isfinite z \<longrightarrow> pressure_alt z p1 p2 = NonFinite)
         \<and> (isfinite (pressure_alt z p1 p2) \<or> to_float (fp_neg z) = NonFinite)"
proof -
  from uniform_pair_accepts [where rand = "rand_values w" and rand_max = "RAND_MAX lib"
      and k = "rand_calls s" and j = j] assms(1) obtain i where i: "i \<le> j"
    and u: "uniform_pair (rand_values w) (RAND_MAX lib) (rand_calls s) =
           Some (real (rand_values w (rand_calls s + 2 * i)) * (1 / real (RAND_MAX lib)),
                 real (rand_values w (rand_calls s + 2 * i + 1)) * (1 / real (RAND_MAX lib)),
                 rand_calls s + 2 * i + 2)"
    and e: "FLT_EPSILON < real (rand_values w (rand_calls s + 2 * i)) * (1 / real (RAND_MAX lib))"
    and l: "\<forall>l<i. real (rand_values w (rand_calls s + 2 * l)) * (1 / real (RAND_MAX lib))
                  \<le> FLT_EPSILON"
    by blast
  define p1 where "p1 = real (rand_values w (rand_calls s + 2 * i)) * (1 / real (RAND_MAX lib))"
  define p2 where "p2 = real (rand_values w (rand_calls s + 2 * i + 1)) * (1 / real (RAND_MAX lib))"
  define n where "n = sqrt (- 2 * ln p1) * cos (2 * pi * p2)"
  have one: "p1 \<le> 1"
    unfolding p1_def using assms(2,3) by (intro uniform_le_one) simp_all
  have eps: "FLT_EPSILON < p1" using e by (simp add: p1_def)
  have ns: "normal_sample p1 p2 = Finite n" and nb: "\<bar>n\<bar> \<le> 4096"
    using normal_sample_finite [OF eps one, of p2] by (simp_all add: n_def)
  have u': "uniform_pair (rand_values w) (RAND_MAX lib) (rand_calls s)
             = Some (p1, p2, rand_calls s + 2 * i + 2)"
    using u by (simp add: p1_def p2_def)
  have r: "\<forall>a. z = Finite a \<and> \<bar>a\<bar> + 4096 \<le> FLT_MAX \<longrightarrow>
                  pressure_alt z p1 p2 = Finite (- a + n * sqrt 0.006)"
    using pressure_alt_in_range [OF ns nb] by blast
  have "uniform_pair (rand_values w) (RAND_MAX lib) (rand_calls s)
             = Some (p1, p2, rand_calls s + 2 * i + 2)
         \<and> p1 = real (rand_values w (rand_calls s + 2 * i)) * (1 / real (RAND_MAX lib))
         \<and> p2 = real (rand_values w (rand_calls s + 2 * i + 1)) * (1 / real (RAND_MAX lib))
         \<and> FLT_EPSILON < p1
         \<and> (\<forall>l<i. real (rand_values w (rand_calls s + 2 * l)) * (1 / real (RAND_MAX lib))
                    \<le> FLT_EPSILON)
         \<and> normal_sample p1 p2 = Finite n \<and> \<bar>n\<bar> \<le> 4096
         \<and> map_option (\<lambda>r. sensor_pressure_alt (fst (snd r))) (ImuCallback lib P w imu s) =
             Some (pressure_alt
                     (Finite (v_z (RotateVector lib
                                     \<lparr>q_w = 0, q_x = 0.70711, q_y = 0.70711, q_z = 0\<rparr>
                                     (pose_pos w)))) p1 p2)
         \<and> pressure_alt z p1 p2 =
             (if isfinite (perturbed_alt z p1 p2) then perturbed_alt z p1 p2
              else to_float (fp_neg z))
         \<and> (\<forall>a. z = Finite a \<and> \<bar>a\<bar> + 4096 \<le> FLT_MAX \<longrightarrow>
                  pressure_alt z p1 p2 = Finite (- a + n * sqrt 0.006))
         \<and> (\<not> isfinite z \<longrightarrow> pressure_alt z p1 p2 = NonFinite)
         \<and> (isfinite (pressure_alt z p1 p2) \<or> to_float (fp_neg z) = NonFinite)"
    using u' p1_def p2_def eps l ns nb ImuCallback_pressure_alt(2) [OF u', of P imu]
      pressure_alt_cases [of z p1 p2] r pressure_alt_nonfinite [of z p1 p2]
      pressure_alt_finite_or [of z p1 p2]
    by (intro conjI impI) (assumption | simp)+
  then show ?thesis using i by blast
qed

lemma example_rotation_vector: "RotateVector example_library q v = v"
  by (simp add: example_library_def)

lemma FLT_MAX_large: "4096 < FLT_MAX"
  by (simp add: FLT_MAX_def)

lemma pressure_alt_out_of_range:
  assumes "normal_sample p1 p2 = Finite n" and "\<bar>n\<bar> \<le> 4096" and "FLT_MAX + 4096 < \<bar>a\<bar>"
  shows "pressure_alt (Finite a) p1 p2 = NonFinite"
proof -
  have "\<bar>n * sqrt 0.006\<bar> \<le> 4096 * 1"
    unfolding abs_mult using assms(2) sqrt_variance
    by (intro mult_mono) simp_all
  then have "FLT_MAX < \<bar>- a + n * sqrt 0.006\<bar>"
    using assms(3) by linarith
  then have "perturbed_alt (Finite a) p1 p2 = NonFinite"
    by (simp add: perturbed_alt_def assms(1))
  moreover have "FLT_MAX < \<bar>a\<bar>" using assms(3) by linarith
  ultimately show ?thesis by (simp add: pressure_alt_cases)
qed

lemma half_sample:
  "FLT_EPSILON < (1073741823 / 2147483647 :: real)" "(1073741823 / 2147483647 :: real) \<le> 1"
  by (simp_all add: FLT_EPSILON_def)

text \<open>
  C8, as stated, has no NaN and no infinity ever placed in the message. With a position
  that is not finite the perturbed altitude is not finite, and the fallback is the
  position again; with an altitude of twice \<^verbatim>\<open>FLT_MAX\<close> both the perturbed altitude
  and the fallback overflow the \<^verbatim>\<open>float\<close> field.
\<close>

theorem C8_nonfinite_ground_truth:
  "pressure_alt NonFinite (1073741823 / 2147483647) (1073741823 / 2147483647) = NonFinite
   \<and> map_option (\<lambda>r. sensor_pressure_alt (fst (snd r)))
        (ImuCallback example_library example_params far_away example_imu example_plugin)
       = Some NonFinite"
proof -
  have a: "pressure_alt NonFinite (1073741823 / 2147483647) (1073741823 / 2147483647) = NonFinite"
    by (rule pressure_alt_nonfinite) simp
  have r: "rand_values far_away = (\<lambda>k. 1073741823)" "RAND_MAX example_library = 2147483647"
    "pose_pos far_away = \<lparr>v_x = 0, v_y = 0, v_z = 2 * FLT_MAX\<rparr>"
    by (simp_all add: far_away_def gliding_def quiet_world_def example_library_def)
  have u: "uniform_pair (rand_values far_away) (RAND_MAX example_library)
          (rand_calls example_plugin)
        = Some (1073741823 / 2147483647, 1073741823 / 2147483647, rand_calls example_plugin + 2)"
    unfolding r by (rule uniform_pair_half)
  obtain n where n: "normal_sample (1073741823 / 2147483647) (1073741823 / 2147483647) = Finite n"
    "\<bar>n\<bar> \<le> 4096"
    using normal_sample_finite [OF half_sample] by blast
  have "FLT_MAX + 4096 < \<bar>2 * FLT_MAX\<bar>"
    using FLT_MAX_large by simp
  from pressure_alt_out_of_range [OF n this]
  have "pressure_alt (Finite (2 * FLT_MAX)) (1073741823 / 2147483647) (1073741823 / 2147483647)
          = NonFinite" .
  with ImuCallback_pressure_alt(2) [OF u, of example_params example_imu]
  have b: "map_option (\<lambda>r. sensor_pressure_alt (fst (snd r)))
        (ImuCallback example_library example_params far_away example_imu example_plugin)
       = Some NonFinite"
    by (simp add: r(3) example_rotation_vector)
  show ?thesis using a b by simp
qed


lemma redrawing_fields:
  "rand_values redrawing = (\<lambda>k. if k < 2 then 0 else 1073741823)"
  "pose_pos redrawing = \<lparr>v_x = 0, v_y = 0, v_z = 1\<rparr>"
  "RAND_MAX example_library = 2147483647" "rand_calls example_plugin = 0"
  by (simp_all add: redrawing_def gliding_def quiet_world_def example_library_def
      example_plugin_def)

theorem C8_pressure_altitude_witness:
  "FLT_EPSILON < real (rand_values redrawing (rand_calls example_plugin + 2 * 1))
                   * (1 / real (RAND_MAX example_library))
   \<and> (\<forall>i. rand_values redrawing i \<le> RAND_MAX example_library)
   \<and> 0 < RAND_MAX example_library
   \<and> uniform_pair (rand_values redrawing) (RAND_MAX example_library) (rand_calls example_plugin)
       = Some (1073741823 / 2147483647, 1073741823 / 2147483647, 4)
   \<and> (\<exists>n. \<bar>n\<bar> \<le> 4096
          \<and> map_option (\<lambda>r. sensor_pressure_alt (fst (snd r)))
                (ImuCallback example_library example_params redrawing example_imu example_plugin)
              = Some (Finite (- 1 + n * sqrt 0.006)))"
proof -
  have h1: "FLT_EPSILON < real (rand_values redrawing (rand_calls example_plugin + 2 * 1))
                   * (1 / real (RAND_MAX example_library))"
    by (simp add: redrawing_fields FLT_EPSILON_def)
  have h2: "\<forall>i. rand_values redrawing i \<le> RAND_MAX example_library"
    by (simp add: redrawing_fields)
  have h3: "0 < RAND_MAX example_library"
    by (simp add: redrawing_fields)
  from C8_pressure_altitude [OF h1 h2 h3, where z = "Finite 1" and P = example_params
      and imu = example_imu]
  obtain i p1 p2 n where i: "i \<le> 1"
    and u: "uniform_pair (rand_values redrawing) (RAND_MAX example_library)
              (rand_calls example_plugin) = Some (p1, p2, rand_calls example_plugin + 2 * i + 2)"
    and p1: "p1 = real (rand_values redrawing (rand_calls example_plugin + 2 * i))
                    * (1 / real (RAND_MAX example_library))"
    and p2: "p2 = real (rand_values redrawing (rand_calls example_plugin + 2 * i + 1))
                    * (1 / real (RAND_MAX example_library))"
    and e: "FLT_EPSILON < p1"
    and n: "\<bar>n\<bar> \<le> 4096"
    and m: "map_option (\<lambda>r. sensor_pressure_alt (fst (snd r)))
              (ImuCallback example_library example_params redrawing example_imu example_plugin) =
             Some (pressure_alt
                     (Finite (v_z (RotateVector example_library
                                     \<lparr>q_w = 0, q_x = 0.70711, q_y = 0.70711, q_z = 0\<rparr>
                                     (pose_pos redrawing)))) p1 p2)"
    and r: "\<forall>a. Finite 1 = Finite a \<and> \<bar>a\<bar> + 4096 \<le> FLT_MAX \<longrightarrow>
                  pressure_alt (Finite 1) p1 p2 = Finite (- a + n * sqrt 0.006)"
    by blast
  have "i \<noteq> 0"
  proof
    assume "i = 0"
    then have "p1 = 0" using p1 by (simp add: redrawing_fields)
    with e show False by (simp add: FLT_EPSILON_def)
  qed
  with i have i1: "i = 1" by simp
  have v: "p1 = 1073741823 / 2147483647" "p2 = 1073741823 / 2147483647"
    using p1 p2 by (simp_all add: i1 redrawing_fields)
  have u': "uniform_pair (rand_values redrawing) (RAND_MAX example_library)
              (rand_calls example_plugin)
            = Some (1073741823 / 2147483647, 1073741823 / 2147483647, 4)"
    using u by (simp add: v i1 redrawing_fields(4))
  have "\<bar>1::real\<bar> + 4096 \<le> FLT_MAX" by (simp add: FLT_MAX_def)
  with r have "pressure_alt (Finite 1) p1 p2 = Finite (- 1 + n * sqrt 0.006)" by blast
  with m have "map_option (\<lambda>r. sensor_pressure_alt (fst (snd r)))
                (ImuCallback example_library example_params redrawing example_imu example_plugin)
              = Some (Finite (- 1 + n * sqrt 0.006))"
    by (simp add: example_rotation_vector redrawing_fields(2))
  with n have "\<exists>n. \<bar>n\<bar> \<le> 4096
          \<and> map_option (\<lambda>r. sensor_pressure_alt (fst (snd r)))
                (ImuCallback example_library example_params redrawing example_imu example_plugin)
              = Some (Finite (- 1 + n * sqrt 0.006))"
    by blast
  with h1 h2 h3 u' show ?thesis by blast
qed

subsection \<open>Sending\<close>

lemma htons_14550: "htons 14550 = 54840"
  by (simp add: htons_def)

lemma htons_14560: "htons 14560 = 57400"
  by (simp add: htons_def)

text \<open>
  C4. The source copies the peer address, puts the given port into the copy and then
  passes the peer address itself to \<^verbatim>\<open>sendto\<close>: the datagram goes to the port of
  \<^verbatim>\<open>_srcaddr\<close>, here 14560, whatever port is given, here 14550.
\<close>

theorem C4_destination_port_ignored:
  "sendto_dest (fst (send_mavlink_message (\<lambda>m. m) example_plugin [254, 0] 14550 2))
     = \<lparr>sin_addr = 0, sin_port = htons 14560\<rparr>
   \<and> sin_port (sendto_dest (fst (send_mavlink_message (\<lambda>m. m) example_plugin [254, 0] 14550 2)))
     \<noteq> htons 14550"
  by (simp add: send_mavlink_message_def example_plugin_def htons_14550 htons_14560)

subsection \<open>Optical flow\<close>

lemma ImuCallback_optflow_gyro:
  "map_option (\<lambda>r. optflow_gyro (fst r)) (ImuCallback lib P w imu s) =
     map_option
       (\<lambda>u. if 1000 < imu_dt_us w s
            then vec_add (optflow_gyro s)
                   (vec_scale (RotateVector lib \<lparr>q_w = 0, q_x = 1, q_y = 0, q_z = 0\<rparr>
                                 (imu_angular_velocity imu))
                      (real (unat (imu_dt_us w s)) / 1000000))
            else optflow_gyro s)
       (uniform_pair (rand_values w) (RAND_MAX lib) (rand_calls s))"
  by (simp add: ImuCallback_def Let_def imu_dt_us_def split: option.split)

lemma imu_dt_us_example:
  "imu_dt_us (gliding 0.1) (example_plugin\<lparr>last_dt_us := Some 90000\<rparr>) = 10000"
  by (simp add: imu_dt_us_def gliding_def quiet_world_def trunc_def)

text \<open>
  C7. In every optical flow message the three integrated gyro fields are zero when the
  quality of the incoming sample is zero; otherwise they are the integral kept in
  \<^verbatim>\<open>optflow_gyro\<close> with the axes exchanged as the source has them (\<open>-y\<close>, \<open>x\<close>,
  \<open>-z\<close>). After the callback the integral is zero. The integral is what
  \<^verbatim>\<open>ImuCallback\<close> accumulates: whenever more than 1000 microseconds have passed
  since it last did so, it adds the angular rate in the body frame times the seconds
  passed.
\<close>

theorem C7_optical_flow_gyro:
  "flow_integrated_xgyro (snd (OpticalFlowCallback now m s))
     = (if of_quality m = 0 then 0 else - v_y (optflow_gyro s))
   \<and> flow_integrated_ygyro (snd (OpticalFlowCallback now m s))
     = (if of_quality m = 0 then 0 else v_x (optflow_gyro s))
   \<and> flow_integrated_zgyro (snd (OpticalFlowCallback now m s))
     = (if of_quality m = 0 then 0 else - v_z (optflow_gyro s))
   \<and> optflow_gyro (fst (OpticalFlowCallback now m s)) = \<lparr>v_x = 0, v_y = 0, v_z = 0\<rparr>
   \<and> map_option (\<lambda>r. optflow_gyro (fst r)) (ImuCallback lib P w imu s) =
       map_option
         (\<lambda>u. if 1000 < imu_dt_us w s
              then vec_add (optflow_gyro s)
                     (vec_scale (RotateVector lib \<lparr>q_w = 0, q_x = 1, q_y = 0, q_z = 0\<rparr>
                                   (imu_angular_velocity imu))
                        (real (unat (imu_dt_us w s)) / 1000000))
              else optflow_gyro s)
         (uniform_pair (rand_values w) (RAND_MAX lib) (rand_calls s))"
  using ImuCallback_optflow_gyro [of lib P w imu s]
  by (simp add: OpticalFlowCallback_def vec_zero_def)

lemma OpticalFlowCallback_examples:
  "flow_integrated_xgyro (snd (OpticalFlowCallback 1 (example_flow 0) turning_plugin)) = 0"
  "flow_integrated_xgyro (snd (OpticalFlowCallback 1 (example_flow 255) turning_plugin)) = - 2"
  "flow_integrated_ygyro (snd (OpticalFlowCallback 1 (example_flow 255) turning_plugin)) = 1"
  "flow_integrated_zgyro (snd (OpticalFlowCallback 1 (example_flow 255) turning_plugin)) = - 3"
  by (simp_all add: OpticalFlowCallback_def example_flow_def turning_plugin_def)

end
